theory Spec2Isabelle
  imports Main "HOL-Library.Word"
begin

section \<open>The TCP connection manager: data model\<close>

text \<open>
  The manager of package \<open>tcp\<close> (type \<open>TCP\<close>, functions \<open>New\<close>, \<open>Start\<close>, \<open>Stop\<close>,
  \<open>Do\<close>, \<open>DropConnections\<close>, \<open>join\<close>, \<open>remove\<close>) as state-passing functions. Every call
  into the operating system, a worker pool, the event callback or another goroutine is
  recorded as an \<open>effect\<close>, in program order. What the outside world answers (the result
  of \<open>net.ListenTCP\<close>, of \<open>Accept\<close>, of \<open>time.Now\<close>, the visiting order of a \<open>range\<close> over
  a map) is an argument of the function that asks.

  \<open>time.Time\<close> is an instant in nanoseconds on one clock, counted from the zero value
  of the type, and \<open>time.Duration\<close> a number of nanoseconds, both \<open>int\<close>: \<open>t.Add d\<close> is
  \<open>t + d\<close> and \<open>t.After u\<close> is \<open>u < t\<close>.
\<close>

type_synonym time = int
type_synonym duration = int

text \<open>A \<open>*net.TCPListener\<close> and a \<open>*pool.Pool\<close> are handles: only their identity matters.\<close>

datatype tcplistener = Listener nat
datatype pool = Pool string

text \<open>A \<open>net.Conn\<close>: its identity and what \<open>RemoteAddr().String()\<close> and \<open>LocalAddr()\<close> print.\<close>

datatype conn = Conn (conn_id: nat) (RemoteAddr: string) (LocalAddr: string)

text \<open>
  Errors. The first five are the values built by \<open>errors.New\<close> and \<open>fmt.Errorf\<close> in the
  manager; the bracketed address is the argument of the format. \<open>NetError\<close> is an error of
  package \<open>net\<close>: its text, and what the type assertion \<open>err.(temporary)\<close> finds: \<open>None\<close>
  when the error has no method \<open>Temporary\<close>, otherwise what \<open>Temporary()\<close> returns.
\<close>

datatype error =
    ErrStarted
  | ErrStopped
  | ErrDisconnected string
  | ErrConnected string
  | ErrRemoved string
  | NetError string (Temporary: "bool option")
  | ConfigError string
  | NegativeCounter

text \<open>Modelled from the spec: the client connection of \<open>client.go\<close> (not among the sources):
  it owns one accepted socket and is created under a trace context.\<close>

datatype client = Client (cntx: string) (cconn: conn)

text \<open>Modelled from the spec: the type \<open>Config\<close> of \<open>config.go\<close> (not among the sources), with
  the fields the manager reads. \<open>RateLimit\<close> is \<open>None\<close> for a nil function value.\<close>

record Config =
  NetType :: string
  Addr :: string
  RecvMinPoolSize :: int
  RecvMaxPoolSize :: int
  SendMinPoolSize :: int
  SendMaxPoolSize :: int
  RecvPool :: "pool option"
  SendPool :: "pool option"
  RateLimit :: "(unit \<Rightarrow> duration) option"

record TCPAddr =
  IP :: string
  Port :: int

text \<open>The struct \<open>TCP\<close>. The two mutexes carry no data; \<open>wg\<close> is the counter of the
  \<open>sync.WaitGroup\<close>; the \<open>int32\<close> flags are 32-bit words.\<close>

record TCP =
  Config :: Config
  Name :: string
  ipAddress :: string
  port :: int
  tcpAddr :: TCPAddr
  listener :: "tcplistener option"
  clients :: "string \<rightharpoonup> client"
  recv :: pool
  send :: pool
  userPools :: bool
  wg :: int
  dropConns :: "32 word"
  shuttingDown :: "32 word"
  lastAcceptedConnection :: time

text \<open>The struct \<open>Response\<close> of \<open>handlers.go\<close>. The address is held as \<open>TCPAddr.String()\<close>
  prints it; \<open>Complete\<close> tells whether a completion callback is set; \<open>r_tcp\<close> is the name
  of the manager the unexported pointer \<open>tcp\<close> refers to.\<close>

record Response =
  r_TCPAddr :: string
  Data :: "8 word list"
  Length :: int
  Complete :: bool
  r_tcp :: "string option"
  r_client :: "client option"
  r_traceID :: string

text \<open>The arguments of an event's format. \<open>AHostPort ip p\<close> is the package-level
  \<open>join(ip, p)\<close>, that is \<open>net.JoinHostPort(ip, strconv.Itoa(p))\<close>.\<close>

datatype arg = AStr string | AErr error | ADur duration | AHostPort string int

text \<open>What a function does to the world outside the struct, in program order.\<close>

datatype effect =
    Event string string string "arg list"  \<comment> \<open>\<open>t.Event(traceID, category, format, args...)\<close>\<close>
  | ListenTCP "error + tcplistener"         \<comment> \<open>\<open>net.ListenTCP\<close> and its result\<close>
  | ListenerClose "tcplistener option"      \<comment> \<open>\<open>Close\<close> on the value of \<open>t.listener\<close>\<close>
  | ConnClose conn                          \<comment> \<open>\<open>conn.Close()\<close>\<close>
  | PoolShutdown pool string                \<comment> \<open>\<open>p.Shutdown(traceID)\<close>\<close>
  | PoolDo pool string Response             \<comment> \<open>\<open>p.Do(traceID, r)\<close>\<close>
  | NewClient client                        \<comment> \<open>\<open>newClient\<close>: binds the socket, starts the read pipeline\<close>
  | Go string                               \<comment> \<open>\<open>go func() {...}()\<close>: the accept task is spawned\<close>
  | Panic error                             \<comment> \<open>\<open>panic(err)\<close>\<close>
  | Return string "error option"            \<comment> \<open>the named call returns to its caller\<close>

section \<open>The registry: join and remove\<close>

text \<open>Modelled from the spec: \<open>newClient\<close> of \<open>client.go\<close> (not among the sources) wraps
  the accepted socket as a client connection and starts its read pipeline.\<close>

definition newClient :: "string \<Rightarrow> conn \<Rightarrow> client" where
  "newClient cx c = Client cx c"

definition join :: "TCP \<Rightarrow> string \<Rightarrow> conn \<Rightarrow> TCP \<times> effect list" where
  "join t traceID c =
    (let ipAddress = RemoteAddr c;
         cx = traceID @ ''-'' @ ipAddress;
         ev = Event cx ''join'' ''Remote IPAddress[ %s ], Local IPAddress[ %v ]''
                [AStr ipAddress, AStr (LocalAddr c)]
     in case clients t ipAddress of
          Some _ \<Rightarrow>
            (t, [ev, Event traceID ''join'' ''ERROR : %v'' [AErr (ErrConnected ipAddress)],
                 ConnClose c])
        | None \<Rightarrow>
            (t\<lparr>clients := (clients t)(ipAddress \<mapsto> newClient cx c)\<rparr>,
             [ev, NewClient (newClient cx c)]))"

definition remove :: "TCP \<Rightarrow> string \<Rightarrow> conn \<Rightarrow> TCP \<times> effect list" where
  "remove t traceID c =
    (let ipAddress = RemoteAddr c;
         ev = Event traceID ''remove'' ''IPAddress[ %s ]'' [AStr ipAddress]
     in case clients t ipAddress of
          None \<Rightarrow>
            (t, [ev, Event traceID ''remove'' ''ERROR : %v'' [AErr (ErrRemoved ipAddress)]])
        | Some _ \<Rightarrow>
            (t\<lparr>clients := (clients t)(ipAddress := None)\<rparr>, [ev, ConnClose c]))"

section \<open>Do and DropConnections\<close>

definition Do :: "TCP \<Rightarrow> string \<Rightarrow> Response \<Rightarrow> error option \<times> effect list" where
  "Do t traceID r =
    (case clients t (r_TCPAddr r) of
       None \<Rightarrow> (Some (ErrDisconnected (r_TCPAddr r)), [])
     | Some c \<Rightarrow>
         (None,
          [PoolDo (send t) traceID
             (r\<lparr>r_tcp := Some (Name t), r_client := Some c, r_traceID := traceID\<rparr>)]))"

definition DropConnections :: "TCP \<Rightarrow> string \<Rightarrow> bool \<Rightarrow> TCP" where
  "DropConnections t traceID d = (if d then t\<lparr>dropConns := 1\<rparr> else t\<lparr>dropConns := 0\<rparr>)"

section \<open>The accept task\<close>

text \<open>
  The body of the goroutine started by \<open>Start\<close>, cut where it can be suspended. Besides the
  manager it works on the counter of \<open>waitStart\<close>, the wait group it shares with the call
  of \<open>Start\<close> that spawned it, and on its local variable \<open>listener\<close>.

  \<open>accept_top\<close> is the locked section at the head of the loop (lines 153 to 171), given
  what \<open>net.ListenTCP\<close> would answer. \<open>Done\<close> on a wait group whose counter is zero
  panics in Go.
\<close>

datatype 'a outcome = Continue (val: 'a) | Break (val: 'a) | Panicked (val: 'a)

definition wg_Done :: "int \<Rightarrow> int option" where
  "wg_Done n = (if n - 1 < 0 then None else Some (n - 1))"

definition accept_top ::
  "TCP \<Rightarrow> string \<Rightarrow> tcplistener option \<Rightarrow> int \<Rightarrow> error + tcplistener \<Rightarrow>
     (TCP \<times> tcplistener option \<times> int \<times> effect list) outcome" where
  "accept_top t traceID lsn ws bind =
    (case listener t of
       Some _ \<Rightarrow> Continue (t, lsn, ws, [])
     | None \<Rightarrow>
        (case bind of
           Inl err \<Rightarrow> Panicked (t, lsn, ws, [ListenTCP (Inl err), Panic err])
         | Inr l \<Rightarrow>
            (case wg_Done ws of
               None \<Rightarrow>
                 Panicked (t\<lparr>listener := Some l\<rparr>, Some l, ws,
                   [ListenTCP (Inr l), Panic NegativeCounter])
             | Some ws' \<Rightarrow>
                 Continue (t\<lparr>listener := Some l\<rparr>, Some l, ws',
                   [ListenTCP (Inr l),
                    Event traceID ''accept'' ''Waiting For Connections : IPAddress[ %s ]''
                      [AHostPort (ipAddress t) (port t)]]))))"

text \<open>The test of line 195, \<open>e, ok := err.(temporary); ok && !e.Temporary()\<close>: the error
  has a method \<open>Temporary\<close> and it answers false.\<close>

definition not_temporary :: "error \<Rightarrow> bool" where
  "not_temporary err = (case err of NetError m (Some b) \<Rightarrow> \<not> b | _ \<Rightarrow> False)"

text \<open>
  \<open>accept_error\<close> is the branch taken when \<open>Accept\<close> returns an error (lines 175 to 210).
  \<open>Break\<close> leaves the loop; the statements after the loop (lines 240 and 241) are
  \<open>accept_exit\<close>.
\<close>

definition accept_error ::
  "TCP \<Rightarrow> string \<Rightarrow> int \<Rightarrow> error \<Rightarrow> (TCP \<times> int \<times> effect list) outcome" where
  "accept_error t traceID ws err =
    (if shuttingDown t = 0 then
       (let ev = Event traceID ''accept'' ''ERROR : %v'' [AErr err] in
        if not_temporary err
        then Continue (t\<lparr>listener := None\<rparr>, ws + 1, [ev, ListenerClose (listener t)])
        else Continue (t, ws, [ev]))
     else Break (t\<lparr>listener := None\<rparr>, ws, []))"

definition accept_exit :: "TCP \<Rightarrow> string \<Rightarrow> (TCP \<times> effect list) outcome" where
  "accept_exit t traceID =
    (case wg_Done (wg t) of
       None \<Rightarrow> Panicked (t, [Panic NegativeCounter])
     | Some n \<Rightarrow>
         Break (t\<lparr>wg := n\<rparr>,
           [Event traceID ''accept'' ''Shutdown : IPAddress[ %s ]''
              [AHostPort (ipAddress t) (port t)]]))"

text \<open>
  \<open>accept_conn\<close> is what the loop does with an accepted connection (lines 212 to 236),
  given what \<open>time.Now\<close> would answer.
\<close>

definition accept_conn :: "TCP \<Rightarrow> string \<Rightarrow> conn \<Rightarrow> time \<Rightarrow> TCP \<times> effect list" where
  "accept_conn t traceID c now =
    (if dropConns t = 1 then
       (t, [Event traceID ''accept'' ''*******> DROPPING CONNECTION'' [], ConnClose c])
     else
       (case RateLimit (Config t) of
          None \<Rightarrow> join t traceID c
        | Some limit \<Rightarrow>
            if now < lastAcceptedConnection t + limit () then
              (t, [Event traceID ''accept''
                     ''*******> DROPPING CONNECTION Local[ %v ] Remote[ %v ] DUE TO RATE LIMIT %v''
                     [AStr (LocalAddr c), AStr (RemoteAddr c), ADur (limit ())],
                   ConnClose c])
            else join (t\<lparr>lastAcceptedConnection := now\<rparr>) traceID c))"

text \<open>A run of accepted connections, each with the time of its arrival.\<close>

fun accept_conns :: "TCP \<Rightarrow> string \<Rightarrow> (conn \<times> time) list \<Rightarrow> TCP \<times> effect list" where
  "accept_conns t traceID [] = (t, [])"
| "accept_conns t traceID ((c, now) # cs) =
    (let (t1, es1) = accept_conn t traceID c now;
         (t2, es2) = accept_conns t1 traceID cs
     in (t2, es1 @ es2))"

section \<open>New, Start and Stop\<close>

text \<open>
  \<open>New\<close>. \<open>Config.Validate\<close>, \<open>net.ResolveTCPAddr\<close> and \<open>pool.New\<close> are not among the
  sources: they are the parameters \<open>validate\<close>, \<open>resolve\<close> and \<open>pool_New\<close>.
\<close>

definition New ::
  "(Config \<Rightarrow> error option) \<Rightarrow> (string \<Rightarrow> string \<Rightarrow> error + TCPAddr) \<Rightarrow>
   (string \<Rightarrow> string \<Rightarrow> int \<Rightarrow> int \<Rightarrow> error + pool) \<Rightarrow>
   string \<Rightarrow> string \<Rightarrow> Config \<Rightarrow> error + TCP" where
  "New validate resolve pool_New traceID name cfg =
    (case validate cfg of
       Some err \<Rightarrow> Inl err
     | None \<Rightarrow>
        (case resolve (NetType cfg) (Addr cfg) of
           Inl err \<Rightarrow> Inl err
         | Inr a \<Rightarrow>
            (case (case RecvPool cfg of
                     Some p \<Rightarrow> Inr p
                   | None \<Rightarrow> pool_New traceID (name @ ''-Recv'')
                               (RecvMinPoolSize cfg) (RecvMaxPoolSize cfg)) of
               Inl err \<Rightarrow> Inl err
             | Inr rp \<Rightarrow>
                (case (case SendPool cfg of
                         Some p \<Rightarrow> Inr p
                       | None \<Rightarrow> pool_New traceID (name @ ''-Send'')
                                   (SendMinPoolSize cfg) (SendMaxPoolSize cfg)) of
                   Inl err \<Rightarrow> Inl err
                 | Inr sp \<Rightarrow>
                     Inr \<lparr>Config = cfg, Name = name, ipAddress = IP a, port = Port a,
                          tcpAddr = a, listener = None, clients = Map.empty,
                          recv = rp, send = sp,
                          userPools = (RecvPool cfg \<noteq> None),
                          wg = 0, dropConns = 0, shuttingDown = 0,
                          lastAcceptedConnection = 0\<rparr>))))"

text \<open>
  \<open>Start\<close> up to the point where it waits (lines 132 to 149): the check of the listener,
  \<open>t.wg.Add(1)\<close>, \<open>waitStart.Add(1)\<close> and the \<open>go\<close> statement. \<open>Inl\<close> is the early return;
  \<open>Inr\<close> carries the counter of the fresh \<open>waitStart\<close>, on which the caller then waits
  (line 245) before it returns nil.
\<close>

definition Start_enter :: "TCP \<Rightarrow> string \<Rightarrow> (error + int) \<times> TCP \<times> effect list" where
  "Start_enter t traceID =
    (case listener t of
       Some _ \<Rightarrow> (Inl ErrStarted, t, [])
     | None \<Rightarrow> (Inr 1, t\<lparr>wg := wg t + 1\<rparr>, [Go traceID]))"

text \<open>
  \<open>Stop\<close> up to the loop over the copied registry (lines 252 to 289). \<open>range_order\<close> is
  the order in which \<open>range\<close> visits the keys of \<open>t.clients\<close>; the result is the copy, as
  the list of clients the loop at line 292 will visit.
\<close>

definition Stop_enter ::
  "TCP \<Rightarrow> string \<Rightarrow> string list \<Rightarrow> (error + client list) \<times> TCP \<times> effect list" where
  "Stop_enter t traceID range_order =
    (case listener t of
       None \<Rightarrow> (Inl ErrStopped, t, [])
     | Some l \<Rightarrow>
         (Inr (List.map_filter (clients t) range_order),
          t\<lparr>shuttingDown := 1\<rparr>,
          [ListenerClose (Some l)] @
          (if \<not> userPools t
           then [PoolShutdown (recv t) traceID, PoolShutdown (send t) traceID] else [])))"

section \<open>The manager at work: callers, the accept task, the read pipelines\<close>

text \<open>
  \<open>Start\<close> and \<open>Stop\<close> wait for other goroutines, so what they return is decided by a
  run of the whole manager. A \<open>world\<close> holds the struct, the accept tasks spawned so far,
  the calls of \<open>Stop\<close> under way, the clients whose read pipeline is running, and the log
  of all effects. One \<open>label\<close> is one move of one goroutine; what the outside world
  answers rides on the label. A move that is not possible in a world (a goroutine that is
  suspended, a call that is not under way) gives \<open>None\<close>. A panic ends the process: a
  crashed world has no moves.

  A move runs without interruption. The accept task is cut at the head of its loop, inside
  \<open>Accept\<close>, and between the return of \<open>Accept\<close> and the handling of what it returned;
  \<open>Start\<close> and \<open>Stop\<close> are cut where they wait (\<open>waitStart.Wait\<close>, \<open>drop\<close>, \<open>t.wg.Wait\<close>);
  \<open>Do\<close> and \<open>DropConnections\<close> are one move each. The outside world is free: \<open>Accept\<close>
  may return anything at any time and a read pipeline may end at any time, so every run of
  the program at this grain is a run of the model. What the read pipelines and the pool
  workers do with requests and responses is not part of the model.
\<close>

text \<open>Where an accept task stands: at the head of the loop, suspended in \<open>Accept\<close>, holding
  what \<open>Accept\<close> returned (line 174), or past the end of the goroutine.\<close>

datatype pc = AtTop | InAccept | Got "error + conn" | Exited

record task =
  a_traceID :: string
  a_pc :: pc
  a_listener :: "tcplistener option"  \<comment> \<open>the local variable \<open>listener\<close>\<close>
  waitStart :: int                     \<comment> \<open>the counter of \<open>waitStart\<close>\<close>
  starting :: bool                     \<comment> \<open>the spawning call of \<open>Start\<close> is in \<open>waitStart.Wait()\<close>\<close>

text \<open>A call of \<open>Stop\<close> that passed line 289: the clients its loop has still to drop, and
  whether it is inside \<open>drop\<close> for the first of them.\<close>

record stopcall =
  s_traceID :: string
  todo :: "client list"
  dropping :: bool
  stopping :: bool                     \<comment> \<open>the call has not returned\<close>

record world =
  tcp :: TCP
  tasks :: "task list"
  stops :: "stopcall list"
  reading :: "client list"
  log :: "effect list"
  crashed :: bool

definition initial :: "TCP \<Rightarrow> world" where
  "initial t = \<lparr>tcp = t, tasks = [], stops = [], reading = [], log = [], crashed = False\<rparr>"

datatype label =
    Call_Start string                  \<comment> \<open>a caller enters \<open>Start\<close>\<close>
  | Ret_Start nat                      \<comment> \<open>\<open>waitStart.Wait()\<close> returns in the call that spawned task i\<close>
  | Acc_top nat "error + tcplistener"  \<comment> \<open>task i runs the head of its loop\<close>
  | Acc_return nat "error + conn"      \<comment> \<open>\<open>Accept\<close> returns in task i\<close>
  | Acc_handle nat time                \<comment> \<open>task i deals with what \<open>Accept\<close> returned\<close>
  | Call_Stop string "string list"     \<comment> \<open>a caller enters \<open>Stop\<close>\<close>
  | Stop_drop nat                      \<comment> \<open>call j of \<open>Stop\<close> enters \<open>drop\<close> for its next client\<close>
  | Stop_dropped nat                   \<comment> \<open>that \<open>drop\<close> returns\<close>
  | Ret_Stop nat                       \<comment> \<open>\<open>t.wg.Wait()\<close> returns in call j of \<open>Stop\<close>\<close>
  | Read_exit client                   \<comment> \<open>the read pipeline of a client ends\<close>
  | Call_Do string Response
  | Call_DropConnections string bool

fun created :: "effect list \<Rightarrow> client list" where
  "created [] = []"
| "created (NewClient c # es) = c # created es"
| "created (_ # es) = created es"

fun closed :: "effect list \<Rightarrow> conn list" where
  "closed [] = []"
| "closed (ConnClose c # es) = c # closed es"
| "closed (_ # es) = closed es"

definition call_Start :: "string \<Rightarrow> world \<Rightarrow> world option" where
  "call_Start traceID w =
    (case Start_enter (tcp w) traceID of
       (Inl err, t, es) \<Rightarrow> Some (w\<lparr>tcp := t, log := log w @ es @ [Return ''Start'' (Some err)]\<rparr>)
     | (Inr ws, t, es) \<Rightarrow>
         Some (w\<lparr>tcp := t,
                 tasks := tasks w @
                   [\<lparr>a_traceID = traceID, a_pc = AtTop, a_listener = None,
                     waitStart = ws, starting = True\<rparr>],
                 log := log w @ es\<rparr>))"

text \<open>\<open>waitStart.Wait()\<close> (line 245) returns when the counter is zero; \<open>Start\<close> then
  returns nil.\<close>

definition ret_Start :: "nat \<Rightarrow> world \<Rightarrow> world option" where
  "ret_Start i w =
    (if i < length (tasks w) \<and> starting (tasks w ! i) \<and> waitStart (tasks w ! i) = 0
     then Some (w\<lparr>tasks := (tasks w)[i := (tasks w ! i)\<lparr>starting := False\<rparr>],
                  log := log w @ [Return ''Start'' None]\<rparr>)
     else None)"

definition acc_top :: "nat \<Rightarrow> error + tcplistener \<Rightarrow> world \<Rightarrow> world option" where
  "acc_top i bind w =
    (if i < length (tasks w) \<and> a_pc (tasks w ! i) = AtTop then
       (let k = tasks w ! i in
        case accept_top (tcp w) (a_traceID k) (a_listener k) (waitStart k) bind of
          Continue (t, lsn, ws, es) \<Rightarrow>
            Some (w\<lparr>tcp := t,
                    tasks := (tasks w)[i := k\<lparr>a_pc := InAccept, a_listener := lsn,
                                               waitStart := ws\<rparr>],
                    log := log w @ es\<rparr>)
        | Break (t, lsn, ws, es) \<Rightarrow> None
        | Panicked (t, lsn, ws, es) \<Rightarrow>
            Some (w\<lparr>tcp := t,
                    tasks := (tasks w)[i := k\<lparr>a_listener := lsn, waitStart := ws\<rparr>],
                    log := log w @ es, crashed := True\<rparr>))
     else None)"

definition acc_return :: "nat \<Rightarrow> error + conn \<Rightarrow> world \<Rightarrow> world option" where
  "acc_return i res w =
    (if i < length (tasks w) \<and> a_pc (tasks w ! i) = InAccept
     then Some (w\<lparr>tasks := (tasks w)[i := (tasks w ! i)\<lparr>a_pc := Got res\<rparr>]\<rparr>)
     else None)"

definition acc_handle :: "nat \<Rightarrow> time \<Rightarrow> world \<Rightarrow> world option" where
  "acc_handle i now w =
    (if i < length (tasks w) then
       (let k = tasks w ! i in
        case a_pc k of
          Got (Inr c) \<Rightarrow>
            (case accept_conn (tcp w) (a_traceID k) c now of
               (t, es) \<Rightarrow>
                 Some (w\<lparr>tcp := t, tasks := (tasks w)[i := k\<lparr>a_pc := AtTop\<rparr>],
                         reading := reading w @ created es, log := log w @ es\<rparr>))
        | Got (Inl err) \<Rightarrow>
            (case accept_error (tcp w) (a_traceID k) (waitStart k) err of
               Continue (t, ws, es) \<Rightarrow>
                 Some (w\<lparr>tcp := t,
                         tasks := (tasks w)[i := k\<lparr>a_pc := AtTop, waitStart := ws\<rparr>],
                         log := log w @ es\<rparr>)
             | Break (t, ws, es) \<Rightarrow>
                 (case accept_exit t (a_traceID k) of
                    Break (t', es') \<Rightarrow>
                      Some (w\<lparr>tcp := t',
                              tasks := (tasks w)[i := k\<lparr>a_pc := Exited, waitStart := ws\<rparr>],
                              log := log w @ es @ es'\<rparr>)
                  | Panicked (t', es') \<Rightarrow>
                      Some (w\<lparr>tcp := t', log := log w @ es @ es', crashed := True\<rparr>)
                  | Continue _ \<Rightarrow> None)
             | Panicked _ \<Rightarrow> None)
        | _ \<Rightarrow> None)
     else None)"

definition call_Stop :: "string \<Rightarrow> string list \<Rightarrow> world \<Rightarrow> world option" where
  "call_Stop traceID range_order w =
    (case Stop_enter (tcp w) traceID range_order of
       (Inl err, t, es) \<Rightarrow> Some (w\<lparr>tcp := t, log := log w @ es @ [Return ''Stop'' (Some err)]\<rparr>)
     | (Inr cs, t, es) \<Rightarrow>
         Some (w\<lparr>tcp := t,
                 stops := stops w @
                   [\<lparr>s_traceID = traceID, todo = cs, dropping = False, stopping = True\<rparr>],
                 log := log w @ es\<rparr>))"

text \<open>Modelled from the spec: \<open>drop\<close> of \<open>client.go\<close> (not among the sources) closes the
  client's socket and blocks the caller until the client's read pipeline has exited.\<close>

definition stop_drop :: "nat \<Rightarrow> world \<Rightarrow> world option" where
  "stop_drop j w =
    (if j < length (stops w) \<and> stopping (stops w ! j) \<and> \<not> dropping (stops w ! j) then
       (case todo (stops w ! j) of
          [] \<Rightarrow> None
        | c # cs \<Rightarrow>
            Some (w\<lparr>stops := (stops w)[j := (stops w ! j)\<lparr>dropping := True\<rparr>],
                    log := log w @ [ConnClose (cconn c)]\<rparr>))
     else None)"

definition stop_dropped :: "nat \<Rightarrow> world \<Rightarrow> world option" where
  "stop_dropped j w =
    (if j < length (stops w) \<and> stopping (stops w ! j) \<and> dropping (stops w ! j) then
       (case todo (stops w ! j) of
          [] \<Rightarrow> None
        | c # cs \<Rightarrow>
            if c \<in> set (reading w) then None
            else Some (w\<lparr>stops := (stops w)[j := (stops w ! j)\<lparr>todo := cs, dropping := False\<rparr>]\<rparr>))
     else None)"

text \<open>\<open>t.wg.Wait()\<close> (line 298) returns when the counter is zero; \<open>Stop\<close> then returns
  nil.\<close>

definition ret_Stop :: "nat \<Rightarrow> world \<Rightarrow> world option" where
  "ret_Stop j w =
    (if j < length (stops w) \<and> stopping (stops w ! j) \<and> todo (stops w ! j) = [] \<and>
        wg (tcp w) = 0
     then Some (w\<lparr>stops := (stops w)[j := (stops w ! j)\<lparr>stopping := False\<rparr>],
                  log := log w @ [Return ''Stop'' None]\<rparr>)
     else None)"

text \<open>Modelled from the spec: the read pipeline of \<open>client.go\<close> (not among the sources). When
  it ends, on end of stream or a read error that is not recoverable, the connection removes
  itself from the registry, which is a call of \<open>remove\<close>, and the pipeline has exited.\<close>

definition read_exit :: "client \<Rightarrow> world \<Rightarrow> world option" where
  "read_exit c w =
    (if c \<in> set (reading w) then
       (case remove (tcp w) (cntx c) (cconn c) of
          (t, es) \<Rightarrow> Some (w\<lparr>tcp := t, reading := removeAll c (reading w), log := log w @ es\<rparr>))
     else None)"

definition call_Do :: "string \<Rightarrow> Response \<Rightarrow> world \<Rightarrow> world option" where
  "call_Do traceID r w =
    (case Do (tcp w) traceID r of
       (res, es) \<Rightarrow> Some (w\<lparr>log := log w @ es @ [Return ''Do'' res]\<rparr>))"

definition call_DropConnections :: "string \<Rightarrow> bool \<Rightarrow> world \<Rightarrow> world option" where
  "call_DropConnections traceID d w =
    Some (w\<lparr>tcp := DropConnections (tcp w) traceID d,
            log := log w @ [Return ''DropConnections'' None]\<rparr>)"

definition step :: "label \<Rightarrow> world \<Rightarrow> world option" where
  "step l w =
    (if crashed w then None
     else case l of
       Call_Start traceID \<Rightarrow> call_Start traceID w
     | Ret_Start i \<Rightarrow> ret_Start i w
     | Acc_top i bind \<Rightarrow> acc_top i bind w
     | Acc_return i res \<Rightarrow> acc_return i res w
     | Acc_handle i now \<Rightarrow> acc_handle i now w
     | Call_Stop traceID range_order \<Rightarrow> call_Stop traceID range_order w
     | Stop_drop j \<Rightarrow> stop_drop j w
     | Stop_dropped j \<Rightarrow> stop_dropped j w
     | Ret_Stop j \<Rightarrow> ret_Stop j w
     | Read_exit c \<Rightarrow> read_exit c w
     | Call_Do traceID r \<Rightarrow> call_Do traceID r w
     | Call_DropConnections traceID d \<Rightarrow> call_DropConnections traceID d w)"

fun run :: "label list \<Rightarrow> world \<Rightarrow> world option" where
  "run [] w = Some w"
| "run (l # ls) w = (case step l w of None \<Rightarrow> None | Some w' \<Rightarrow> run ls w')"

section \<open>Notions used in the properties\<close>

text \<open>The address under which a client is registered, and whether a connection is the
  registered one for its remote address.\<close>

definition addr_of :: "client \<Rightarrow> string" where
  "addr_of k = RemoteAddr (cconn k)"

definition registered :: "TCP \<Rightarrow> conn \<Rightarrow> bool" where
  "registered t c = (case clients t (RemoteAddr c) of None \<Rightarrow> False | Some k \<Rightarrow> cconn k = c)"

text \<open>The accept tasks that have not ended, and the invariant that ties them to the wait
  group and the listener: \<open>t.wg\<close> counts them, and a listener is held only while one of
  them lives.\<close>

definition running :: "task list \<Rightarrow> nat" where
  "running ts = length (filter (\<lambda>k. a_pc k \<noteq> Exited) ts)"

definition accounted :: "world \<Rightarrow> bool" where
  "accounted w \<longleftrightarrow>
     wg (tcp w) = int (running (tasks w)) \<and> (listener (tcp w) \<noteq> None \<longrightarrow> 0 < running (tasks w))"

text \<open>A task whose \<open>waitStart\<close> has come down to zero has assigned its local variable
  \<open>listener\<close>, which only the successful \<open>net.ListenTCP\<close> of line 159 does.\<close>

definition ready :: "task \<Rightarrow> bool" where
  "ready k \<longleftrightarrow> (waitStart k \<le> 0 \<longrightarrow> a_listener k \<noteq> None)"

definition bound :: "world \<Rightarrow> bool" where
  "bound w \<longleftrightarrow> (\<forall>k \<in> set (tasks w). ready k)"

text \<open>The pools of a manager and who owns them.\<close>

definition pools_of :: "TCP \<Rightarrow> pool \<times> pool \<times> bool" where
  "pools_of t = (recv t, send t, userPools t)"

text \<open>The registered clients whose read pipeline has not exited.\<close>

definition unfinished :: "world \<Rightarrow> client list" where
  "unfinished w = filter (\<lambda>k. clients (tcp w) (addr_of k) = Some k) (reading w)"

text \<open>The returns recorded in a log, and the results with which \<open>Start\<close> returned.\<close>

fun returns :: "effect list \<Rightarrow> (string \<times> error option) list" where
  "returns [] = []"
| "returns (Return n r # es) = (n, r) # returns es"
| "returns (_ # es) = returns es"

definition start_results :: "effect list \<Rightarrow> error option list" where
  "start_results es = map snd (filter (\<lambda>p. fst p = ''Start'') (returns es))"

text \<open>A move adds to the log, and every return of \<open>Start\<close> among what it adds is nil or the
  error of a manager already started.\<close>

definition grows :: "world \<Rightarrow> world \<Rightarrow> bool" where
  "grows w w' \<longleftrightarrow>
     (\<exists>es. log w' = log w @ es \<and>
           (\<forall>r \<in> set (start_results es). r = None \<or> r = Some ErrStarted))"

section \<open>Example values\<close>

text \<open>A configuration without pools of its own and without rate limit, the manager \<open>New\<close>
  builds from it, and three connections, the third from the remote address of the
  first.\<close>

definition cfg0 :: Config where
  "cfg0 = \<lparr>NetType = ''tcp4'', Addr = '':6000'', RecvMinPoolSize = 2, RecvMaxPoolSize = 8,
           SendMinPoolSize = 2, SendMaxPoolSize = 8, RecvPool = None, SendPool = None,
           RateLimit = None\<rparr>"

definition tcp0 :: TCP where
  "tcp0 = \<lparr>Config = cfg0, Name = ''srv'', ipAddress = ''0.0.0.0'', port = 6000,
           tcpAddr = \<lparr>IP = ''0.0.0.0'', Port = 6000\<rparr>, listener = None,
           clients = Map.empty, recv = Pool ''srv-Recv'', send = Pool ''srv-Send'',
           userPools = False, wg = 0, dropConns = 0, shuttingDown = 0,
           lastAcceptedConnection = 0\<rparr>"

definition conn1 :: conn where "conn1 = Conn 1 ''10.0.0.5:5555'' ''10.0.0.1:6000''"

definition conn2 :: conn where "conn2 = Conn 2 ''10.0.0.6:4444'' ''10.0.0.1:6000''"

definition conn3 :: conn where "conn3 = Conn 3 ''10.0.0.5:5555'' ''10.0.0.1:6000''"

definition resp1 :: Response where
  "resp1 = \<lparr>r_TCPAddr = ''10.0.0.5:5555'', Data = [80, 79, 78, 71], Length = 4,
            Complete = False, r_tcp = None, r_client = None, r_traceID = []\<rparr>"

text \<open>A limiter of one second, and a configuration that supplies a send pool only.\<close>

definition one_second :: "unit \<Rightarrow> duration" where
  "one_second u = 1000000000"

definition tcp_limited :: TCP where
  "tcp_limited = tcp0\<lparr>Config := cfg0\<lparr>RateLimit := Some one_second\<rparr>\<rparr>"

definition cfg_mixed :: Config where
  "cfg_mixed = cfg0\<lparr>SendPool := Some (Pool ''mine'')\<rparr>"

definition tcp_mixed :: TCP where
  "tcp_mixed = tcp0\<lparr>Config := cfg_mixed, send := Pool ''mine''\<rparr>"

text \<open>Answers of the outside world: the parameters of \<open>New\<close>, and errors of \<open>net\<close>.\<close>

definition accept_all :: "Config \<Rightarrow> error option" where
  "accept_all cfg = None"

definition resolve0 :: "string \<Rightarrow> string \<Rightarrow> error + TCPAddr" where
  "resolve0 n a = Inr \<lparr>IP = ''0.0.0.0'', Port = 6000\<rparr>"

definition pool_New0 :: "string \<Rightarrow> string \<Rightarrow> int \<Rightarrow> int \<Rightarrow> error + pool" where
  "pool_New0 traceID nm lo hi = Inr (Pool nm)"

definition bind_failure :: error where
  "bind_failure = NetError ''listen tcp4 :6000: bind: address already in use'' None"

definition closed_listener :: error where
  "closed_listener = NetError ''accept tcp4 0.0.0.0:6000: use of closed network connection'' None"

definition too_many_files :: error where
  "too_many_files = NetError ''accept tcp4 0.0.0.0:6000: accept4: too many open files'' (Some False)"

definition timeout_err :: error where
  "timeout_err = NetError ''accept tcp4 0.0.0.0:6000: i/o timeout'' (Some True)"

text \<open>
  Runs. \<open>started\<close>: \<open>Start\<close> is called and the accept task binds. \<open>restarted\<close>: \<open>Start\<close>
  returns and is called again. \<open>stopped\<close>: the manager
  is started and stopped with no client, up to the point where \<open>Stop\<close> can return.
  \<open>drained\<close>: a client is registered, then \<open>Stop\<close> drops it and returns. \<open>race\<close>:
  \<open>Accept\<close> has returned a connection when \<open>Stop\<close> is called; the accept task registers
  the connection after \<open>Stop\<close> has copied the registry. Where \<open>t.listener\<close> is set, the
  head of the loop does not call \<open>net.ListenTCP\<close> and the answer carried by \<open>Acc_top\<close> is
  not consulted.
\<close>

definition started :: "label list" where
  "started = [Call_Start ''t1'', Acc_top 0 (Inr (Listener 1))]"

definition restarted :: "label list" where
  "restarted = [Call_Start ''t1'', Acc_top 0 (Inr (Listener 1)), Ret_Start 0, Call_Start ''t5'']"

definition stopped :: "label list" where
  "stopped = [Call_Start ''t1'', Acc_top 0 (Inr (Listener 1)), Ret_Start 0,
              Call_Stop ''t2'' [], Acc_return 0 (Inl closed_listener), Acc_handle 0 200]"

definition drained :: "label list" where
  "drained = [Call_Start ''t1'', Acc_top 0 (Inr (Listener 1)), Ret_Start 0,
              Acc_return 0 (Inr conn1), Acc_handle 0 100, Acc_top 0 (Inr (Listener 2)),
              Call_Stop ''t2'' [''10.0.0.5:5555''],
              Stop_drop 0, Read_exit (Client ''t1-10.0.0.5:5555'' conn1), Stop_dropped 0,
              Acc_return 0 (Inl closed_listener), Acc_handle 0 200,
              Ret_Stop 0]"

definition race :: "label list" where
  "race = [Call_Start ''t1'', Acc_top 0 (Inr (Listener 1)), Ret_Start 0,
           Acc_return 0 (Inr conn1),
           Call_Stop ''t2'' [],
           Acc_handle 0 100,
           Acc_top 0 (Inr (Listener 2)),
           Acc_return 0 (Inl closed_listener),
           Acc_handle 0 200,
           Ret_Stop 0]"

section \<open>Lemmas on effects and on single functions\<close>

lemma created_append: "created (xs @ ys) = created xs @ created ys"
  by (induction xs rule: created.induct) simp_all

lemma closed_append: "closed (xs @ ys) = closed xs @ closed ys"
  by (induction xs rule: closed.induct) simp_all

lemma accept_conn_dropping:
  "dropConns t = 1 \<Longrightarrow>
   accept_conn t traceID c now =
     (t, [Event traceID ''accept'' ''*******> DROPPING CONNECTION'' [], ConnClose c])"
  by (simp add: accept_conn_def)

lemma accept_conns_dropping:
  "dropConns t = 1 \<Longrightarrow>
   fst (accept_conns t traceID cs) = t \<and>
   closed (snd (accept_conns t traceID cs)) = map fst cs \<and>
   created (snd (accept_conns t traceID cs)) = []"
  by (induction cs) (auto simp: accept_conn_dropping split: prod.splits)

lemma accept_conn_created:
  "accept_conn t traceID c now = (t', es) \<Longrightarrow>
   (created es = [] \<and> clients t' = clients t) \<or>
   (\<exists>k. created es = [k] \<and> addr_of k = RemoteAddr c \<and> cconn k = c \<and>
        clients t (RemoteAddr c) = None \<and> clients t' = (clients t)(RemoteAddr c \<mapsto> k))"
  by (auto simp: accept_conn_def join_def Let_def addr_of_def newClient_def
           split: if_splits option.splits)

lemma accept_conns_registry:
  "accept_conns t traceID cs = (t', es) \<Longrightarrow>
   distinct (map addr_of (created es)) \<and>
   (\<forall>k \<in> set (created es). clients t (addr_of k) = None \<and> clients t' (addr_of k) = Some k) \<and>
   (\<forall>a k. clients t a = Some k \<longrightarrow> clients t' a = Some k) \<and>
   (\<forall>a k. clients t' a = Some k \<longrightarrow> clients t a = Some k \<or> k \<in> set (created es))"
proof (induction cs arbitrary: t t' es)
  case Nil
  then show ?case by simp
next
  case (Cons x cs)
  obtain c now where x: "x = (c, now)" by (cases x)
  obtain t1 es1 where h: "accept_conn t traceID c now = (t1, es1)" by fastforce
  obtain t2 es2 where r: "accept_conns t1 traceID cs = (t2, es2)" by fastforce
  from Cons.prems x h r have e: "t' = t2" "es = es1 @ es2" by simp_all
  note ih = Cons.IH [OF r]
  from accept_conn_created [OF h] show ?case
  proof (elim disjE exE conjE)
    assume "created es1 = []" "clients t1 = clients t"
    with ih e show ?thesis by (simp add: created_append)
  next
    fix k
    assume k: "created es1 = [k]" "addr_of k = RemoteAddr c" "clients t (RemoteAddr c) = None"
      "clients t1 = (clients t)(RemoteAddr c \<mapsto> k)" "cconn k = c"
    have t1k: "clients t1 (addr_of k) = Some k" using k by simp
    have fresh: "addr_of k \<notin> addr_of ` set (created es2)"
      using ih t1k by auto
    have "clients t2 (addr_of k) = Some k" using ih t1k by blast
    moreover have "\<forall>j \<in> set (created es2). clients t (addr_of j) = None"
      using ih k by (auto split: if_splits)
    moreover have "\<forall>a j. clients t a = Some j \<longrightarrow> clients t2 a = Some j"
      using ih k by (metis fun_upd_apply option.distinct(1))
    moreover have "\<forall>a j. clients t2 a = Some j \<longrightarrow>
        clients t a = Some j \<or> j = k \<or> j \<in> set (created es2)"
      using ih k by (metis fun_upd_apply option.inject)
    ultimately show ?thesis
      using ih k e fresh by (auto simp: created_append)
  qed
qed

lemma New_fresh:
  assumes "New validate resolve pool_New traceID name cfg = Inr t"
  shows "listener t = None \<and> wg t = 0 \<and> clients t = Map.empty \<and>
         userPools t = (RecvPool cfg \<noteq> None) \<and>
         (\<forall>p. SendPool cfg = Some p \<longrightarrow> send t = p) \<and>
         (\<forall>p. RecvPool cfg = Some p \<longrightarrow> recv t = p)"
  using assms by (auto simp: New_def split: option.splits sum.splits)

lemma New_example:
  "New accept_all resolve0 pool_New0 ''t0'' ''srv'' cfg0 = Inr tcp0 \<and>
   New accept_all resolve0 pool_New0 ''t0'' ''srv'' cfg_mixed = Inr tcp_mixed"
  by (simp add: New_def accept_all_def resolve0_def pool_New0_def cfg0_def tcp0_def
        cfg_mixed_def tcp_mixed_def)

lemma Stop_enter_order:
  "listener t = Some l \<Longrightarrow>
   Stop_enter t traceID ord =
     (Inr (List.map_filter (clients t) ord), t\<lparr>shuttingDown := 1\<rparr>,
      ListenerClose (Some l) #
      (if userPools t then []
       else [PoolShutdown (recv t) traceID, PoolShutdown (send t) traceID]))"
  by (simp add: Stop_enter_def)

lemma join_keeps: "join t traceID c = (t', es) \<Longrightarrow> listener t' = listener t \<and> wg t' = wg t"
  by (auto simp: join_def Let_def split: option.splits)

lemma accept_conn_keeps:
  "accept_conn t traceID c now = (t', es) \<Longrightarrow> listener t' = listener t \<and> wg t' = wg t"
  by (auto simp: accept_conn_def split: if_splits option.splits dest: join_keeps)

lemma remove_keeps: "remove t traceID c = (t', es) \<Longrightarrow> listener t' = listener t \<and> wg t' = wg t"
  by (auto simp: remove_def Let_def split: option.splits)

lemma accept_top_keeps: "wg (fst (val (accept_top t traceID lsn ws bind))) = wg t"
  by (simp add: accept_top_def split: option.splits sum.splits)

lemma accept_error_keeps: "wg (fst (val (accept_error t traceID ws err))) = wg t"
  by (simp add: accept_error_def Let_def)

lemma accept_error_Break:
  "accept_error t traceID ws err = Break x \<Longrightarrow> listener (fst x) = None"
  by (auto simp: accept_error_def Let_def split: if_splits)

lemma accept_error_Continue:
  "accept_error t traceID ws err = Continue x \<Longrightarrow>
   listener (fst x) = None \<or> listener (fst x) = listener t"
  by (auto simp: accept_error_def Let_def split: if_splits)

lemma accept_exit_Break:
  "accept_exit t traceID = Break x \<Longrightarrow> listener (fst x) = listener t \<and> wg (fst x) = wg t - 1"
  by (auto simp: accept_exit_def wg_Done_def split: if_splits)

lemma accept_exit_Panicked:
  "accept_exit t traceID = Panicked x \<Longrightarrow> fst x = t"
  by (auto simp: accept_exit_def wg_Done_def split: if_splits)

lemma accept_top_ready:
  "ready k \<Longrightarrow>
   ready (k\<lparr>a_pc := p,
            a_listener := fst (snd (val (accept_top t traceID (a_listener k) (waitStart k) bind))),
            waitStart := fst (snd (snd (val (accept_top t traceID (a_listener k) (waitStart k) bind))))\<rparr>)"
  by (auto simp: ready_def accept_top_def wg_Done_def split: option.splits sum.splits)

lemma accept_error_ready:
  "ready k \<Longrightarrow>
   ready (k\<lparr>a_pc := p, waitStart := fst (snd (val (accept_error t traceID (waitStart k) err)))\<rparr>)"
  by (auto simp: ready_def accept_error_def Let_def)

lemma accept_top_pools: "pools_of (fst (val (accept_top t traceID lsn ws bind))) = pools_of t"
  by (simp add: accept_top_def pools_of_def split: option.splits sum.splits)

lemma accept_error_pools: "pools_of (fst (val (accept_error t traceID ws err))) = pools_of t"
  by (simp add: accept_error_def pools_of_def Let_def)

lemma accept_exit_pools: "pools_of (fst (val (accept_exit t traceID))) = pools_of t"
  by (simp add: accept_exit_def pools_of_def split: option.splits)

lemma join_pools: "pools_of (fst (join t traceID c)) = pools_of t"
  by (simp add: join_def pools_of_def Let_def split: option.splits)

lemma accept_conn_pools: "pools_of (fst (accept_conn t traceID c now)) = pools_of t"
  by (simp add: accept_conn_def join_pools split: option.splits)
     (simp add: pools_of_def)

lemma remove_pools: "pools_of (fst (remove t traceID c)) = pools_of t"
  by (simp add: remove_def pools_of_def Let_def split: option.splits)

section \<open>Lemmas on moves and runs\<close>

lemmas ops = step_def call_Start_def ret_Start_def acc_top_def acc_return_def acc_handle_def
  call_Stop_def stop_drop_def stop_dropped_def ret_Stop_def read_exit_def call_Do_def
  call_DropConnections_def Start_enter_def Stop_enter_def accept_top_def accept_error_def
  accept_exit_def accept_conn_def join_def remove_def wg_Done_def not_temporary_def
  newClient_def initial_def Let_def

lemma step_cases:
  assumes "step l w = Some w'"
  obtains
    (Call_Start) x where "call_Start x w = Some w'"
  | (Ret_Start) i where "ret_Start i w = Some w'"
  | (Acc_top) i b where "acc_top i b w = Some w'"
  | (Acc_return) i r where "acc_return i r w = Some w'"
  | (Acc_handle) i n where "acc_handle i n w = Some w'"
  | (Call_Stop) x ord where "call_Stop x ord w = Some w'"
  | (Stop_drop) j where "stop_drop j w = Some w'"
  | (Stop_dropped) j where "stop_dropped j w = Some w'"
  | (Ret_Stop) j where "ret_Stop j w = Some w'"
  | (Read_exit) c where "read_exit c w = Some w'"
  | (Call_Do) x r where "call_Do x r w = Some w'"
  | (Call_DropConnections) x d where "call_DropConnections x d w = Some w'"
  using assms by (cases l) (simp_all add: step_def split: if_splits)

lemma run_invariant:
  assumes "\<And>l w w'. P w \<Longrightarrow> step l w = Some w' \<Longrightarrow> P w'"
    and "P w" and "run ls w = Some w'"
  shows "P w'"
  using assms(2,3)
proof (induction ls arbitrary: w)
  case Nil
  then show ?case by simp
next
  case (Cons l ls)
  from Cons.prems(2) obtain w1 where s: "step l w = Some w1" and r: "run ls w1 = Some w'"
    by (auto split: option.splits)
  from assms(1) [OF Cons.prems(1) s] r show ?case by (rule Cons.IH)
qed

lemma acc_handle_shape:
  assumes "acc_handle i now w = Some w'"
  shows "i < length (tasks w) \<and>
    ((\<exists>c. a_pc (tasks w ! i) = Got (Inr c) \<and>
          tcp w' = fst (accept_conn (tcp w) (a_traceID (tasks w ! i)) c now) \<and>
          tasks w' = (tasks w)[i := (tasks w ! i)\<lparr>a_pc := AtTop\<rparr>]) \<or>
     (\<exists>err x. a_pc (tasks w ! i) = Got (Inl err) \<and>
          accept_error (tcp w) (a_traceID (tasks w ! i)) (waitStart (tasks w ! i)) err = Continue x \<and>
          tcp w' = fst x \<and>
          tasks w' = (tasks w)[i := (tasks w ! i)\<lparr>a_pc := AtTop, waitStart := fst (snd x)\<rparr>]) \<or>
     (\<exists>err x y. a_pc (tasks w ! i) = Got (Inl err) \<and>
          accept_error (tcp w) (a_traceID (tasks w ! i)) (waitStart (tasks w ! i)) err = Break x \<and>
          accept_exit (fst x) (a_traceID (tasks w ! i)) = Break y \<and>
          tcp w' = fst y \<and>
          tasks w' = (tasks w)[i := (tasks w ! i)\<lparr>a_pc := Exited, waitStart := fst (snd x)\<rparr>]) \<or>
     (\<exists>err x y. a_pc (tasks w ! i) = Got (Inl err) \<and>
          accept_error (tcp w) (a_traceID (tasks w ! i)) (waitStart (tasks w ! i)) err = Break x \<and>
          accept_exit (fst x) (a_traceID (tasks w ! i)) = Panicked y \<and>
          tcp w' = fst y \<and> tasks w' = tasks w))"
proof -
  from assms have i: "i < length (tasks w)"
    by (simp add: acc_handle_def split: if_splits)
  show ?thesis
  proof (cases "a_pc (tasks w ! i)")
    case (Got res)
    show ?thesis
    proof (cases res)
      case (Inr c)
      with assms i Got show ?thesis
        by (auto simp: acc_handle_def Let_def split: prod.splits)
    next
      case (Inl err)
      show ?thesis
      proof (cases "accept_error (tcp w) (a_traceID (tasks w ! i)) (waitStart (tasks w ! i)) err")
        case (Continue x)
        with assms i Got Inl show ?thesis
          by (auto simp: acc_handle_def Let_def split: prod.splits)
      next
        case (Break x)
        then show ?thesis
          using assms i Got Inl
          by (cases "accept_exit (fst x) (a_traceID (tasks w ! i))")
             (auto simp: acc_handle_def Let_def split: prod.splits)
      next
        case (Panicked x)
        with assms i Got Inl show ?thesis
          by (auto simp: acc_handle_def Let_def split: prod.splits)
      qed
    qed
  qed (use assms i in \<open>simp_all add: acc_handle_def Let_def\<close>)
qed

lemma acc_top_tasks:
  assumes "acc_top i bind w = Some w'"
  shows "\<exists>p. tasks w' = (tasks w)[i := (tasks w ! i)\<lparr>a_pc := p,
      a_listener := fst (snd (val (accept_top (tcp w) (a_traceID (tasks w ! i))
         (a_listener (tasks w ! i)) (waitStart (tasks w ! i)) bind))),
      waitStart := fst (snd (snd (val (accept_top (tcp w) (a_traceID (tasks w ! i))
         (a_listener (tasks w ! i)) (waitStart (tasks w ! i)) bind))))\<rparr>]"
proof -
  from assms have i: "i < length (tasks w)" "a_pc (tasks w ! i) = AtTop"
    by (simp_all add: acc_top_def split: if_splits)
  show ?thesis
  proof (cases "accept_top (tcp w) (a_traceID (tasks w ! i))
         (a_listener (tasks w ! i)) (waitStart (tasks w ! i)) bind")
    case (Continue x)
    with assms i have "tasks w' = (tasks w)[i := (tasks w ! i)\<lparr>a_pc := InAccept,
        a_listener := fst (snd x), waitStart := fst (snd (snd x))\<rparr>]"
      by (auto simp: acc_top_def Let_def split: prod.splits)
    with Continue show ?thesis by auto
  next
    case (Break x)
    with assms i show ?thesis by (auto simp: acc_top_def Let_def split: prod.splits)
  next
    case (Panicked x)
    with assms i have "tasks w' = (tasks w)[i := (tasks w ! i)\<lparr>
        a_listener := fst (snd x), waitStart := fst (snd (snd x))\<rparr>]"
      by (auto simp: acc_top_def Let_def split: prod.splits)
    moreover have "(tasks w ! i)\<lparr>a_listener := fst (snd x), waitStart := fst (snd (snd x))\<rparr> =
        (tasks w ! i)\<lparr>a_pc := AtTop, a_listener := fst (snd x), waitStart := fst (snd (snd x))\<rparr>"
      using i(2) by simp
    ultimately show ?thesis using Panicked by auto
  qed
qed

subsection \<open>The wait group counts the accept tasks\<close>

lemma running_append: "running (ts @ [k]) = running ts + (if a_pc k \<noteq> Exited then 1 else 0)"
  by (simp add: running_def)

lemma running_update:
  "i < length ts \<Longrightarrow>
   running (ts[i := k]) + (if a_pc (ts ! i) \<noteq> Exited then 1 else 0) =
   running ts + (if a_pc k \<noteq> Exited then 1 else 0)"
proof (induction ts arbitrary: i)
  case Nil
  then show ?case by simp
next
  case (Cons x ts)
  show ?case
  proof (cases i)
    case 0
    then show ?thesis by (simp add: running_def)
  next
    case (Suc n)
    with Cons.prems have "n < length ts" by simp
    from Cons.IH [OF this] Suc show ?thesis by (simp add: running_def)
  qed
qed

lemma running_same:
  "i < length ts \<Longrightarrow> (a_pc k = Exited) = (a_pc (ts ! i) = Exited) \<Longrightarrow>
   running (ts[i := k]) = running ts"
  using running_update [of i ts k] by (simp split: if_splits)

lemma running_exit:
  "i < length ts \<Longrightarrow> a_pc (ts ! i) \<noteq> Exited \<Longrightarrow> a_pc k = Exited \<Longrightarrow>
   running (ts[i := k]) + 1 = running ts"
  using running_update [of i ts k] by simp

lemma running_pos:
  "i < length ts \<Longrightarrow> a_pc (ts ! i) \<noteq> Exited \<Longrightarrow> 0 < running ts"
  by (auto simp: running_def filter_empty_conv)

lemma accounted_call_Start: "accounted w \<Longrightarrow> call_Start traceID w = Some w' \<Longrightarrow> accounted w'"
  by (auto simp: accounted_def call_Start_def Start_enter_def running_append split: option.splits)

lemma accounted_ret_Start: "accounted w \<Longrightarrow> ret_Start i w = Some w' \<Longrightarrow> accounted w'"
  by (auto simp: accounted_def ret_Start_def running_same split: if_splits)

lemma accounted_acc_top:
  assumes "accounted w" and "acc_top i bind w = Some w'"
  shows "accounted w'"
proof -
  from assms(2) have i: "i < length (tasks w)" "a_pc (tasks w ! i) = AtTop"
    by (simp_all add: acc_top_def split: if_splits)
  define k where "k = tasks w ! i"
  define r where "r = accept_top (tcp w) (a_traceID k) (a_listener k) (waitStart k) bind"
  have wgr: "wg (fst (val r)) = wg (tcp w)"
    unfolding r_def by (rule accept_top_keeps)
  have shape: "tcp w' = fst (val r) \<and>
      (\<exists>k'. tasks w' = (tasks w)[i := k'] \<and> a_pc k' \<noteq> Exited)"
    using assms(2) i
    by (cases r) (auto simp: acc_top_def Let_def k_def r_def)
  then obtain k' where k': "tasks w' = (tasks w)[i := k']" "a_pc k' \<noteq> Exited" by blast
  have same: "running (tasks w') = running (tasks w)"
    using k' i by (simp add: running_same)
  have pos: "0 < running (tasks w)"
    using i by (auto intro: running_pos)
  show ?thesis
    using assms(1) shape wgr same pos by (simp add: accounted_def)
qed

lemma accounted_acc_return: "accounted w \<Longrightarrow> acc_return i res w = Some w' \<Longrightarrow> accounted w'"
  by (auto simp: accounted_def acc_return_def running_same split: if_splits)

lemma accounted_acc_handle:
  assumes "accounted w" and "acc_handle i now w = Some w'"
  shows "accounted w'"
proof -
  note s = acc_handle_shape [OF assms(2)]
  then have i: "i < length (tasks w)" by simp
  from s consider
    (conn) c where "a_pc (tasks w ! i) = Got (Inr c)"
      "tcp w' = fst (accept_conn (tcp w) (a_traceID (tasks w ! i)) c now)"
      "tasks w' = (tasks w)[i := (tasks w ! i)\<lparr>a_pc := AtTop\<rparr>]"
  | (retry) err x where "a_pc (tasks w ! i) = Got (Inl err)"
      "accept_error (tcp w) (a_traceID (tasks w ! i)) (waitStart (tasks w ! i)) err = Continue x"
      "tcp w' = fst x"
      "tasks w' = (tasks w)[i := (tasks w ! i)\<lparr>a_pc := AtTop, waitStart := fst (snd x)\<rparr>]"
  | (exit) err x y where "a_pc (tasks w ! i) = Got (Inl err)"
      "accept_error (tcp w) (a_traceID (tasks w ! i)) (waitStart (tasks w ! i)) err = Break x"
      "accept_exit (fst x) (a_traceID (tasks w ! i)) = Break y"
      "tcp w' = fst y"
      "tasks w' = (tasks w)[i := (tasks w ! i)\<lparr>a_pc := Exited, waitStart := fst (snd x)\<rparr>]"
  | (panic) err x y where "a_pc (tasks w ! i) = Got (Inl err)"
      "accept_error (tcp w) (a_traceID (tasks w ! i)) (waitStart (tasks w ! i)) err = Break x"
      "accept_exit (fst x) (a_traceID (tasks w ! i)) = Panicked y"
      "tcp w' = fst y" "tasks w' = tasks w"
    by blast
  then show ?thesis
  proof cases
    case conn
    have "running (tasks w') = running (tasks w)"
      using conn i by (simp add: running_same)
    moreover have "listener (tcp w') = listener (tcp w) \<and> wg (tcp w') = wg (tcp w)"
      using accept_conn_keeps [of "tcp w" "a_traceID (tasks w ! i)" c now] conn(2)
      by (cases "accept_conn (tcp w) (a_traceID (tasks w ! i)) c now") simp
    ultimately show ?thesis using assms(1) by (simp add: accounted_def)
  next
    case retry
    have "running (tasks w') = running (tasks w)"
      using retry i by (simp add: running_same)
    moreover have "0 < running (tasks w)"
      using retry i by (auto intro: running_pos)
    moreover have "wg (tcp w') = wg (tcp w)"
      using accept_error_keeps [of "tcp w" "a_traceID (tasks w ! i)" "waitStart (tasks w ! i)" err]
        retry by simp
    ultimately show ?thesis using assms(1) by (simp add: accounted_def)
  next
    case exit
    have "running (tasks w') + 1 = running (tasks w)"
      using running_exit [of i "tasks w" "(tasks w ! i)\<lparr>a_pc := Exited, waitStart := fst (snd x)\<rparr>"]
        exit i by simp
    moreover have "wg (fst x) = wg (tcp w)"
      using accept_error_keeps [of "tcp w" "a_traceID (tasks w ! i)" "waitStart (tasks w ! i)" err]
        exit by simp
    moreover have "listener (tcp w') = None \<and> wg (tcp w') = wg (fst x) - 1"
      using accept_error_Break [OF exit(2)] accept_exit_Break [OF exit(3)] exit(4) by simp
    ultimately show ?thesis using assms(1) by (simp add: accounted_def)
  next
    case panic
    have "wg (fst x) = wg (tcp w)"
      using accept_error_keeps [of "tcp w" "a_traceID (tasks w ! i)" "waitStart (tasks w ! i)" err]
        panic by simp
    moreover have "tcp w' = fst x \<and> listener (fst x) = None"
      using accept_error_Break [OF panic(2)] accept_exit_Panicked [OF panic(3)] panic(4) by simp
    ultimately show ?thesis using assms(1) panic(5) by (simp add: accounted_def)
  qed
qed

lemma accounted_call_Stop: "accounted w \<Longrightarrow> call_Stop traceID ord w = Some w' \<Longrightarrow> accounted w'"
  by (auto simp: accounted_def call_Stop_def Stop_enter_def split: option.splits)

lemma accounted_stop_drop: "accounted w \<Longrightarrow> stop_drop j w = Some w' \<Longrightarrow> accounted w'"
  by (auto simp: accounted_def stop_drop_def split: if_splits list.splits)

lemma accounted_stop_dropped: "accounted w \<Longrightarrow> stop_dropped j w = Some w' \<Longrightarrow> accounted w'"
  by (auto simp: accounted_def stop_dropped_def split: if_splits list.splits)

lemma accounted_ret_Stop: "accounted w \<Longrightarrow> ret_Stop j w = Some w' \<Longrightarrow> accounted w'"
  by (auto simp: accounted_def ret_Stop_def split: if_splits)

lemma accounted_read_exit: "accounted w \<Longrightarrow> read_exit c w = Some w' \<Longrightarrow> accounted w'"
  by (auto simp: accounted_def read_exit_def split: if_splits prod.splits dest: remove_keeps)

lemma accounted_call_Do: "accounted w \<Longrightarrow> call_Do traceID r w = Some w' \<Longrightarrow> accounted w'"
  by (auto simp: accounted_def call_Do_def split: prod.splits)

lemma accounted_call_DropConnections:
  "accounted w \<Longrightarrow> call_DropConnections traceID d w = Some w' \<Longrightarrow> accounted w'"
  by (cases d) (auto simp: accounted_def call_DropConnections_def DropConnections_def)

lemma accounted_step:
  assumes "accounted w" and "step l w = Some w'"
  shows "accounted w'"
  using assms(2)
  by (rule step_cases)
     (erule accounted_call_Start [OF assms(1)] accounted_ret_Start [OF assms(1)]
        accounted_acc_top [OF assms(1)] accounted_acc_return [OF assms(1)]
        accounted_acc_handle [OF assms(1)] accounted_call_Stop [OF assms(1)]
        accounted_stop_drop [OF assms(1)] accounted_stop_dropped [OF assms(1)]
        accounted_ret_Stop [OF assms(1)] accounted_read_exit [OF assms(1)]
        accounted_call_Do [OF assms(1)] accounted_call_DropConnections [OF assms(1)])+

lemma accounted_run: "accounted w \<Longrightarrow> run ls w = Some w' \<Longrightarrow> accounted w'"
  by (rule run_invariant [where P = accounted, OF accounted_step])

lemma accounted_initial: "listener t = None \<Longrightarrow> wg t = 0 \<Longrightarrow> accounted (initial t)"
  by (simp add: accounted_def initial_def running_def)

lemma Stop_returns_after_accept_tasks:
  assumes "listener t = None" and "wg t = 0" and "run ls (initial t) = Some w"
    and "step (Ret_Stop j) w = Some w'"
  shows "todo (stops w ! j) = [] \<and> (\<forall>k \<in> set (tasks w). a_pc k = Exited) \<and>
         listener (tcp w) = None"
proof -
  have acc: "accounted w"
    using accounted_run [OF accounted_initial [OF assms(1,2)] assms(3)] .
  from assms(4) have z: "wg (tcp w) = 0" "todo (stops w ! j) = []"
    by (auto simp: step_def ret_Stop_def split: if_splits)
  from acc z(1) have "running (tasks w) = 0" "listener (tcp w) = None"
    by (auto simp: accounted_def)
  with z(2) show ?thesis
    by (auto simp: running_def filter_empty_conv)
qed

subsection \<open>A task with \<open>waitStart\<close> at zero has bound\<close>

lemma bound_update:
  "bound w \<Longrightarrow> tasks w' = (tasks w)[i := k] \<Longrightarrow> ready k \<Longrightarrow> bound w'"
  unfolding bound_def by (metis insertE set_update_subset_insert subsetD)

lemma bound_same: "bound w \<Longrightarrow> tasks w' = tasks w \<Longrightarrow> bound w'"
  by (simp add: bound_def)

lemma bound_nth: "bound w \<Longrightarrow> i < length (tasks w) \<Longrightarrow> ready (tasks w ! i)"
  by (simp add: bound_def)

lemma bound_call_Start: "bound w \<Longrightarrow> call_Start x w = Some w' \<Longrightarrow> bound w'"
  by (auto simp: bound_def ready_def call_Start_def Start_enter_def split: option.splits)

lemma bound_ret_Start: "bound w \<Longrightarrow> ret_Start i w = Some w' \<Longrightarrow> bound w'"
proof -
  assume b: "bound w" and r: "ret_Start i w = Some w'"
  from r have i: "i < length (tasks w)"
    and t: "tasks w' = (tasks w)[i := (tasks w ! i)\<lparr>starting := False\<rparr>]"
    by (auto simp: ret_Start_def split: if_splits)
  from bound_nth [OF b i] have "ready ((tasks w ! i)\<lparr>starting := False\<rparr>)"
    by (simp add: ready_def)
  with b t show ?thesis by (rule bound_update)
qed

lemma bound_acc_top: "bound w \<Longrightarrow> acc_top i b w = Some w' \<Longrightarrow> bound w'"
proof -
  assume b: "bound w" and r: "acc_top i b w = Some w'"
  from r have i: "i < length (tasks w)"
    by (simp add: acc_top_def split: if_splits)
  from acc_top_tasks [OF r] obtain p where
    t: "tasks w' = (tasks w)[i := (tasks w ! i)\<lparr>a_pc := p,
      a_listener := fst (snd (val (accept_top (tcp w) (a_traceID (tasks w ! i))
         (a_listener (tasks w ! i)) (waitStart (tasks w ! i)) b))),
      waitStart := fst (snd (snd (val (accept_top (tcp w) (a_traceID (tasks w ! i))
         (a_listener (tasks w ! i)) (waitStart (tasks w ! i)) b))))\<rparr>]" by blast
  from b t accept_top_ready [OF bound_nth [OF b i]] show ?thesis by (rule bound_update)
qed

lemma bound_acc_return: "bound w \<Longrightarrow> acc_return i r w = Some w' \<Longrightarrow> bound w'"
proof -
  assume b: "bound w" and r: "acc_return i r w = Some w'"
  from r have i: "i < length (tasks w)"
    and t: "tasks w' = (tasks w)[i := (tasks w ! i)\<lparr>a_pc := Got r\<rparr>]"
    by (auto simp: acc_return_def split: if_splits)
  from bound_nth [OF b i] have "ready ((tasks w ! i)\<lparr>a_pc := Got r\<rparr>)"
    by (simp add: ready_def)
  with b t show ?thesis by (rule bound_update)
qed

lemma bound_acc_handle: "bound w \<Longrightarrow> acc_handle i n w = Some w' \<Longrightarrow> bound w'"
proof -
  assume b: "bound w" and r: "acc_handle i n w = Some w'"
  note s = acc_handle_shape [OF r]
  then have i: "i < length (tasks w)" by simp
  note rk = bound_nth [OF b i]
  from s consider
    (conn) "tasks w' = (tasks w)[i := (tasks w ! i)\<lparr>a_pc := AtTop\<rparr>]"
  | (err) p e x where
      "accept_error (tcp w) (a_traceID (tasks w ! i)) (waitStart (tasks w ! i)) e = x"
      "tasks w' = (tasks w)[i := (tasks w ! i)\<lparr>a_pc := p, waitStart := fst (snd (val x))\<rparr>]"
  | (same) "tasks w' = tasks w"
    by (elim conjE disjE exE) (simp, fastforce, fastforce, simp)
  then show ?thesis
  proof cases
    case conn
    from rk have "ready ((tasks w ! i)\<lparr>a_pc := AtTop\<rparr>)" by (simp add: ready_def)
    with b conn show ?thesis by (rule bound_update)
  next
    case err
    from accept_error_ready [OF rk, where p = p and t = "tcp w"
        and traceID = "a_traceID (tasks w ! i)" and err = e] err(1)
    have "ready ((tasks w ! i)\<lparr>a_pc := p, waitStart := fst (snd (val x))\<rparr>)" by simp
    with b err(2) show ?thesis by (rule bound_update)
  next
    case same
    with b show ?thesis by (rule bound_same)
  qed
qed

lemma bound_call_Stop: "bound w \<Longrightarrow> call_Stop x ord w = Some w' \<Longrightarrow> bound w'"
  by (auto simp: bound_def call_Stop_def Stop_enter_def split: option.splits)

lemma bound_stop_drop: "bound w \<Longrightarrow> stop_drop j w = Some w' \<Longrightarrow> bound w'"
  by (auto simp: bound_def stop_drop_def split: if_splits list.splits)

lemma bound_stop_dropped: "bound w \<Longrightarrow> stop_dropped j w = Some w' \<Longrightarrow> bound w'"
  by (auto simp: bound_def stop_dropped_def split: if_splits list.splits)

lemma bound_ret_Stop: "bound w \<Longrightarrow> ret_Stop j w = Some w' \<Longrightarrow> bound w'"
  by (auto simp: bound_def ret_Stop_def split: if_splits)

lemma bound_read_exit: "bound w \<Longrightarrow> read_exit c w = Some w' \<Longrightarrow> bound w'"
  by (auto simp: bound_def read_exit_def split: if_splits prod.splits)

lemma bound_call_Do: "bound w \<Longrightarrow> call_Do x r w = Some w' \<Longrightarrow> bound w'"
  by (auto simp: bound_def call_Do_def split: prod.splits)

lemma bound_call_DropConnections:
  "bound w \<Longrightarrow> call_DropConnections x d w = Some w' \<Longrightarrow> bound w'"
  by (auto simp: bound_def call_DropConnections_def)

lemma bound_step:
  assumes "bound w" and "step l w = Some w'"
  shows "bound w'"
  using assms(2)
  by (rule step_cases)
     (erule bound_call_Start [OF assms(1)] bound_ret_Start [OF assms(1)]
        bound_acc_top [OF assms(1)] bound_acc_return [OF assms(1)]
        bound_acc_handle [OF assms(1)] bound_call_Stop [OF assms(1)]
        bound_stop_drop [OF assms(1)] bound_stop_dropped [OF assms(1)]
        bound_ret_Stop [OF assms(1)] bound_read_exit [OF assms(1)]
        bound_call_Do [OF assms(1)] bound_call_DropConnections [OF assms(1)])+

lemma bound_run: "run ls (initial t) = Some w \<Longrightarrow> bound w"
  by (rule run_invariant [where P = bound, OF bound_step]) (simp_all add: bound_def initial_def)

subsection \<open>No move changes the pools or their ownership\<close>

lemma pools_call_Start: "call_Start x w = Some w' \<Longrightarrow> pools_of (tcp w') = pools_of (tcp w)"
  by (auto simp: pools_of_def call_Start_def Start_enter_def split: option.splits)

lemma pools_ret_Start: "ret_Start i w = Some w' \<Longrightarrow> pools_of (tcp w') = pools_of (tcp w)"
  by (auto simp: ret_Start_def split: if_splits)

lemma pools_acc_top:
  assumes "acc_top i b w = Some w'"
  shows "pools_of (tcp w') = pools_of (tcp w)"
proof -
  have "tcp w' = fst (val (accept_top (tcp w) (a_traceID (tasks w ! i))
      (a_listener (tasks w ! i)) (waitStart (tasks w ! i)) b))"
    using assms
    by (cases "accept_top (tcp w) (a_traceID (tasks w ! i))
      (a_listener (tasks w ! i)) (waitStart (tasks w ! i)) b")
       (auto simp: acc_top_def Let_def split: if_splits)
  then show ?thesis by (simp add: accept_top_pools)
qed

lemma pools_acc_return: "acc_return i r w = Some w' \<Longrightarrow> pools_of (tcp w') = pools_of (tcp w)"
  by (auto simp: acc_return_def split: if_splits)

lemma pools_acc_handle:
  assumes "acc_handle i n w = Some w'"
  shows "pools_of (tcp w') = pools_of (tcp w)"
proof -
  from acc_handle_shape [OF assms] consider
    (conn) c where "tcp w' = fst (accept_conn (tcp w) (a_traceID (tasks w ! i)) c n)"
  | (retry) err x where
      "accept_error (tcp w) (a_traceID (tasks w ! i)) (waitStart (tasks w ! i)) err = Continue x"
      "tcp w' = fst x"
  | (exit) err x y where
      "accept_error (tcp w) (a_traceID (tasks w ! i)) (waitStart (tasks w ! i)) err = Break x"
      "accept_exit (fst x) (a_traceID (tasks w ! i)) = Break y \<or>
       accept_exit (fst x) (a_traceID (tasks w ! i)) = Panicked y"
      "tcp w' = fst y"
    by blast
  then show ?thesis
  proof cases
    case conn
    then show ?thesis by (simp add: accept_conn_pools)
  next
    case retry
    from accept_error_pools [of "tcp w" "a_traceID (tasks w ! i)" "waitStart (tasks w ! i)" err]
      retry show ?thesis by simp
  next
    case exit
    from accept_error_pools [of "tcp w" "a_traceID (tasks w ! i)" "waitStart (tasks w ! i)" err]
      exit(1) have "pools_of (fst x) = pools_of (tcp w)" by simp
    moreover from accept_exit_pools [of "fst x" "a_traceID (tasks w ! i)"] exit(2,3)
    have "pools_of (tcp w') = pools_of (fst x)" by auto
    ultimately show ?thesis by simp
  qed
qed

lemma pools_call_Stop: "call_Stop x ord w = Some w' \<Longrightarrow> pools_of (tcp w') = pools_of (tcp w)"
  by (auto simp: pools_of_def call_Stop_def Stop_enter_def split: option.splits)

lemma pools_stop_drop: "stop_drop j w = Some w' \<Longrightarrow> pools_of (tcp w') = pools_of (tcp w)"
  by (auto simp: stop_drop_def split: if_splits list.splits)

lemma pools_stop_dropped: "stop_dropped j w = Some w' \<Longrightarrow> pools_of (tcp w') = pools_of (tcp w)"
  by (auto simp: stop_dropped_def split: if_splits list.splits)

lemma pools_ret_Stop: "ret_Stop j w = Some w' \<Longrightarrow> pools_of (tcp w') = pools_of (tcp w)"
  by (auto simp: ret_Stop_def split: if_splits)

lemma pools_read_exit:
  assumes "read_exit c w = Some w'"
  shows "pools_of (tcp w') = pools_of (tcp w)"
proof -
  have "tcp w' = fst (remove (tcp w) (cntx c) (cconn c))"
    using assms by (auto simp: read_exit_def split: if_splits prod.splits)
  then show ?thesis by (simp add: remove_pools)
qed

lemma pools_call_Do: "call_Do x r w = Some w' \<Longrightarrow> pools_of (tcp w') = pools_of (tcp w)"
  by (auto simp: call_Do_def split: prod.splits)

lemma pools_call_DropConnections:
  "call_DropConnections x d w = Some w' \<Longrightarrow> pools_of (tcp w') = pools_of (tcp w)"
  by (cases d) (auto simp: pools_of_def call_DropConnections_def DropConnections_def)

lemma pools_step:
  assumes "pools_of (tcp w) = p" and "step l w = Some w'"
  shows "pools_of (tcp w') = p"
proof -
  have "pools_of (tcp w') = pools_of (tcp w)"
    using assms(2)
    by (rule step_cases)
       (erule pools_call_Start pools_ret_Start pools_acc_top pools_acc_return pools_acc_handle
          pools_call_Stop pools_stop_drop pools_stop_dropped pools_ret_Stop pools_read_exit
          pools_call_Do pools_call_DropConnections)+
  with assms(1) show ?thesis by simp
qed

lemma pools_run: "run ls (initial t) = Some w \<Longrightarrow> pools_of (tcp w) = pools_of t"
  by (rule run_invariant [where P = "\<lambda>w. pools_of (tcp w) = pools_of t", OF pools_step])
     (simp_all add: initial_def)

subsection \<open>What \<open>Start\<close> returns\<close>

lemma returns_append: "returns (xs @ ys) = returns xs @ returns ys"
  by (induction xs rule: returns.induct) simp_all

lemma start_results_append: "start_results (xs @ ys) = start_results xs @ start_results ys"
  by (simp add: start_results_def returns_append)

lemma returns_join: "returns (snd (join t traceID c)) = []"
  by (simp add: join_def Let_def split: option.splits)

lemma returns_accept_conn: "returns (snd (accept_conn t traceID c now)) = []"
  by (simp add: accept_conn_def returns_join split: option.splits)

lemma returns_remove: "returns (snd (remove t traceID c)) = []"
  by (simp add: remove_def Let_def split: option.splits)

lemma returns_accept_top:
  "returns (snd (snd (snd (val (accept_top t traceID lsn ws bind))))) = []"
  by (simp add: accept_top_def split: option.splits sum.splits)

lemma returns_accept_error: "returns (snd (snd (val (accept_error t traceID ws err)))) = []"
  by (simp add: accept_error_def Let_def)

lemma returns_accept_exit: "returns (snd (val (accept_exit t traceID))) = []"
  by (simp add: accept_exit_def split: option.splits)

lemma returns_Stop_enter: "returns (snd (snd (Stop_enter t traceID ord))) = []"
  by (simp add: Stop_enter_def split: option.splits)

lemma growsI:
  "log w' = log w @ es \<Longrightarrow> \<forall>r \<in> set (start_results es). r = None \<or> r = Some ErrStarted \<Longrightarrow>
   grows w w'"
  unfolding grows_def by blast

lemma grows_call_Start: "call_Start x w = Some w' \<Longrightarrow> grows w w'"
  by (cases "listener (tcp w)")
     (auto simp: call_Start_def Start_enter_def start_results_def intro!: growsI)

lemma grows_ret_Start: "ret_Start i w = Some w' \<Longrightarrow> grows w w'"
  by (auto simp: ret_Start_def start_results_def split: if_splits intro!: growsI)

lemma grows_acc_top:
  assumes "acc_top i b w = Some w'"
  shows "grows w w'"
proof -
  have "log w' = log w @ snd (snd (snd (val (accept_top (tcp w) (a_traceID (tasks w ! i))
      (a_listener (tasks w ! i)) (waitStart (tasks w ! i)) b))))"
    using assms
    by (cases "accept_top (tcp w) (a_traceID (tasks w ! i))
      (a_listener (tasks w ! i)) (waitStart (tasks w ! i)) b")
       (auto simp: acc_top_def Let_def split: if_splits)
  then show ?thesis
    by (rule growsI) (simp add: start_results_def returns_accept_top)
qed

lemma grows_acc_return: "acc_return i r w = Some w' \<Longrightarrow> grows w w'"
  by (auto simp: acc_return_def start_results_def split: if_splits intro!: growsI [where es = "[]"])

lemma acc_handle_log:
  assumes "acc_handle i n w = Some w'"
  shows "(\<exists>c. log w' = log w @ snd (accept_conn (tcp w) (a_traceID (tasks w ! i)) c n)) \<or>
    (\<exists>err. log w' = log w @ snd (snd (val
        (accept_error (tcp w) (a_traceID (tasks w ! i)) (waitStart (tasks w ! i)) err)))) \<or>
    (\<exists>err. log w' = log w @ snd (snd (val
        (accept_error (tcp w) (a_traceID (tasks w ! i)) (waitStart (tasks w ! i)) err))) @
        snd (val (accept_exit (fst (val
          (accept_error (tcp w) (a_traceID (tasks w ! i)) (waitStart (tasks w ! i)) err)))
          (a_traceID (tasks w ! i)))))"
proof -
  from assms have i: "i < length (tasks w)"
    by (simp add: acc_handle_def split: if_splits)
  show ?thesis
  proof (cases "a_pc (tasks w ! i)")
    case (Got res)
    show ?thesis
    proof (cases res)
      case (Inr c)
      with assms i Got have
        "log w' = log w @ snd (accept_conn (tcp w) (a_traceID (tasks w ! i)) c n)"
        by (auto simp: acc_handle_def Let_def split: prod.splits)
      then show ?thesis by blast
    next
      case (Inl err)
      show ?thesis
      proof (cases "accept_error (tcp w) (a_traceID (tasks w ! i)) (waitStart (tasks w ! i)) err")
        case (Continue x)
        with assms i Got Inl have
          "log w' = log w @ snd (snd (val
            (accept_error (tcp w) (a_traceID (tasks w ! i)) (waitStart (tasks w ! i)) err)))"
          by (auto simp: acc_handle_def Let_def split: prod.splits)
        then show ?thesis by blast
      next
        case (Break x)
        with assms i Got Inl have
          "log w' = log w @ snd (snd (val
            (accept_error (tcp w) (a_traceID (tasks w ! i)) (waitStart (tasks w ! i)) err))) @
            snd (val (accept_exit (fst (val
              (accept_error (tcp w) (a_traceID (tasks w ! i)) (waitStart (tasks w ! i)) err)))
              (a_traceID (tasks w ! i))))"
          by (cases "accept_exit (fst x) (a_traceID (tasks w ! i))")
             (auto simp: acc_handle_def Let_def split: prod.splits)
        then show ?thesis by blast
      next
        case (Panicked x)
        with assms i Got Inl show ?thesis
          by (auto simp: acc_handle_def Let_def split: prod.splits)
      qed
    qed
  qed (use assms i in \<open>simp_all add: acc_handle_def Let_def\<close>)
qed

lemma grows_acc_handle:
  assumes "acc_handle i n w = Some w'"
  shows "grows w w'"
  using acc_handle_log [OF assms]
  by (elim disjE exE)
     (erule growsI,
      simp add: start_results_def returns_append returns_accept_conn returns_accept_error
        returns_accept_exit)+

lemma grows_call_Stop:
  assumes "call_Stop x ord w = Some w'"
  shows "grows w w'"
proof (cases "listener (tcp w)")
  case None
  with assms have "log w' = log w @ [Return ''Stop'' (Some ErrStopped)]"
    by (auto simp: call_Stop_def Stop_enter_def)
  then show ?thesis by (rule growsI) (simp add: start_results_def)
next
  case (Some l)
  with assms have "log w' = log w @ snd (snd (Stop_enter (tcp w) x ord))"
    by (auto simp: call_Stop_def Stop_enter_def)
  then show ?thesis by (rule growsI) (simp add: start_results_def returns_Stop_enter)
qed

lemma grows_stop_drop: "stop_drop j w = Some w' \<Longrightarrow> grows w w'"
  by (auto simp: stop_drop_def start_results_def split: if_splits list.splits intro!: growsI)

lemma grows_stop_dropped: "stop_dropped j w = Some w' \<Longrightarrow> grows w w'"
  by (auto simp: stop_dropped_def start_results_def split: if_splits list.splits
           intro!: growsI [where es = "[]"])

lemma grows_ret_Stop: "ret_Stop j w = Some w' \<Longrightarrow> grows w w'"
  by (auto simp: ret_Stop_def start_results_def split: if_splits intro!: growsI)

lemma grows_read_exit:
  assumes "read_exit c w = Some w'"
  shows "grows w w'"
proof -
  have "log w' = log w @ snd (remove (tcp w) (cntx c) (cconn c))"
    using assms by (auto simp: read_exit_def split: if_splits prod.splits)
  then show ?thesis by (rule growsI) (simp add: start_results_def returns_remove)
qed

lemma grows_call_Do:
  assumes "call_Do x r w = Some w'"
  shows "grows w w'"
proof -
  have "log w' = log w @ snd (Do (tcp w) x r) @ [Return ''Do'' (fst (Do (tcp w) x r))]"
    using assms by (auto simp: call_Do_def split: prod.splits)
  then show ?thesis
    by (rule growsI) (simp add: start_results_def returns_append Do_def split: option.splits)
qed

lemma grows_call_DropConnections: "call_DropConnections x d w = Some w' \<Longrightarrow> grows w w'"
  by (auto simp: call_DropConnections_def start_results_def intro!: growsI)

lemma grows_step: "step l w = Some w' \<Longrightarrow> grows w w'"
  by (rule step_cases, assumption)
     (erule grows_call_Start grows_ret_Start grows_acc_top grows_acc_return grows_acc_handle
        grows_call_Stop grows_stop_drop grows_stop_dropped grows_ret_Stop grows_read_exit
        grows_call_Do grows_call_DropConnections)+

lemma start_results_step:
  assumes "\<forall>r \<in> set (start_results (log w)). r = None \<or> r = Some ErrStarted"
    and "step l w = Some w'"
  shows "\<forall>r \<in> set (start_results (log w')). r = None \<or> r = Some ErrStarted"
proof -
  from grows_step [OF assms(2)] obtain es where
    "log w' = log w @ es" "\<forall>r \<in> set (start_results es). r = None \<or> r = Some ErrStarted"
    unfolding grows_def by blast
  with assms(1) show ?thesis by (auto simp: start_results_append)
qed

lemma start_results_run:
  "run ls (initial t) = Some w \<Longrightarrow>
   \<forall>r \<in> set (start_results (log w)). r = None \<or> r = Some ErrStarted"
  by (rule run_invariant
        [where P = "\<lambda>w. \<forall>r \<in> set (start_results (log w)). r = None \<or> r = Some ErrStarted",
         OF start_results_step])
     (simp_all add: initial_def start_results_def)

subsection \<open>A stop that finds its client registered\<close>

text \<open>In the run \<open>drained\<close> the client is in the registry when \<open>Stop\<close> copies it: \<open>Stop\<close>
  closes its socket, the read pipeline ends and removes the client, and \<open>Stop\<close> returns
  with the registry empty and no pipeline running.\<close>

lemma Stop_drains_registered_client:
  "map_option unfinished (run drained (initial tcp0)) = Some [] \<and>
   map_option reading (run drained (initial tcp0)) = Some [] \<and>
   map_option log (run drained (initial tcp0)) = Some
     [Go ''t1'', ListenTCP (Inr (Listener 1)),
      Event ''t1'' ''accept'' ''Waiting For Connections : IPAddress[ %s ]''
        [AHostPort ''0.0.0.0'' 6000],
      Return ''Start'' None,
      Event ''t1-10.0.0.5:5555'' ''join'' ''Remote IPAddress[ %s ], Local IPAddress[ %v ]''
        [AStr ''10.0.0.5:5555'', AStr ''10.0.0.1:6000''],
      NewClient (Client ''t1-10.0.0.5:5555'' conn1),
      ListenerClose (Some (Listener 1)),
      PoolShutdown (Pool ''srv-Recv'') ''t2'', PoolShutdown (Pool ''srv-Send'') ''t2'',
      ConnClose conn1,
      Event ''t1-10.0.0.5:5555'' ''remove'' ''IPAddress[ %s ]'' [AStr ''10.0.0.5:5555''],
      ConnClose conn1,
      Event ''t1'' ''accept'' ''Shutdown : IPAddress[ %s ]'' [AHostPort ''0.0.0.0'' 6000],
      Return ''Stop'' None]"
  by (simp add: ops drained_def unfinished_def addr_of_def tcp0_def cfg0_def conn1_def
        closed_listener_def List.map_filter_def)

section \<open>The properties\<close>

text \<open>
  C1, as amended. \<open>Start\<close> on a manager that holds a listener returns the error
  "This TCP has already been started" and changes nothing else: no accept task is spawned.
  On a manager that holds none it adds one to the wait group and spawns one accept task,
  and the caller waits: in every run from a new manager, when \<open>waitStart.Wait()\<close> returns
  and \<open>Start\<close> returns nil, the spawned task has bound a listener. A failure of
  \<open>net.ListenTCP\<close> is not returned to the caller: the accept task panics, and a crashed
  process makes no further move, so that \<open>Start\<close> does not return at all. In every run,
  whatever \<open>Start\<close> returns is nil or the error of a manager already started.
\<close>

theorem Start_outcomes:
  "(\<not> crashed w \<and> listener (tcp w) \<noteq> None \<longrightarrow>
      step (Call_Start traceID) w =
        Some (w\<lparr>log := log w @ [Return ''Start'' (Some ErrStarted)]\<rparr>)) \<and>
   (\<not> crashed w \<and> listener (tcp w) = None \<longrightarrow>
      step (Call_Start traceID) w =
        Some (w\<lparr>tcp := (tcp w)\<lparr>wg := wg (tcp w) + 1\<rparr>,
                tasks := tasks w @
                  [\<lparr>a_traceID = traceID, a_pc = AtTop, a_listener = None,
                    waitStart = 1, starting = True\<rparr>],
                log := log w @ [Go traceID]\<rparr>)) \<and>
   (run ls (initial t) = Some w \<and> step (Ret_Start i) w = Some w' \<longrightarrow>
      a_listener (tasks w ! i) \<noteq> None \<and> log w' = log w @ [Return ''Start'' None]) \<and>
   (\<not> crashed w \<and> i < length (tasks w) \<and> a_pc (tasks w ! i) = AtTop \<and>
    listener (tcp w) = None \<longrightarrow>
      map_option crashed (step (Acc_top i (Inl err)) w) = Some True \<and>
      map_option log (step (Acc_top i (Inl err)) w) =
        Some (log w @ [ListenTCP (Inl err), Panic err])) \<and>
   (crashed w \<longrightarrow> step l w = None) \<and>
   (run ls (initial t) = Some w \<longrightarrow>
      (\<forall>r \<in> set (start_results (log w)). r = None \<or> r = Some ErrStarted))"
proof -
  have a: "step (Call_Start traceID) w =
        Some (w\<lparr>log := log w @ [Return ''Start'' (Some ErrStarted)]\<rparr>)"
    if "\<not> crashed w" "listener (tcp w) \<noteq> None"
    using that by (auto simp: step_def call_Start_def Start_enter_def)
  have b: "step (Call_Start traceID) w =
        Some (w\<lparr>tcp := (tcp w)\<lparr>wg := wg (tcp w) + 1\<rparr>,
                tasks := tasks w @
                  [\<lparr>a_traceID = traceID, a_pc = AtTop, a_listener = None,
                    waitStart = 1, starting = True\<rparr>],
                log := log w @ [Go traceID]\<rparr>)"
    if "\<not> crashed w" "listener (tcp w) = None"
    using that by (simp add: step_def call_Start_def Start_enter_def)
  have c: "a_listener (tasks w ! i) \<noteq> None \<and> log w' = log w @ [Return ''Start'' None]"
    if r: "run ls (initial t) = Some w" and s: "step (Ret_Start i) w = Some w'"
  proof -
    from s have i: "i < length (tasks w)" "waitStart (tasks w ! i) = 0"
      and l: "log w' = log w @ [Return ''Start'' None]"
      by (auto simp: step_def ret_Start_def split: if_splits)
    from bound_nth [OF bound_run [OF r] i(1)] i(2) l show ?thesis
      by (simp add: ready_def)
  qed
  have d: "map_option crashed (step (Acc_top i (Inl err)) w) = Some True \<and>
      map_option log (step (Acc_top i (Inl err)) w) =
        Some (log w @ [ListenTCP (Inl err), Panic err])"
    if "\<not> crashed w" "i < length (tasks w)" "a_pc (tasks w ! i) = AtTop"
      "listener (tcp w) = None"
    using that by (simp add: step_def acc_top_def accept_top_def Let_def)
  have e: "step l w = None" if "crashed w"
    using that by (simp add: step_def)
  note f = start_results_run [of ls t w]
  from a b c d e f show ?thesis by blast
qed

text \<open>
  The amended C1 at work: a call on a new manager spawns one task; once the task has
  bound, the caller returns and a second call gets the error without a second task; a
  failed bind crashes the process and the caller cannot return.
\<close>

theorem Start_outcomes_witness:
  "\<not> crashed (initial tcp0) \<and> listener (tcp (initial tcp0)) = None \<and>
   map_option tasks (step (Call_Start ''t1'') (initial tcp0)) =
     Some [\<lparr>a_traceID = ''t1'', a_pc = AtTop, a_listener = None, waitStart = 1,
            starting = True\<rparr>] \<and>
   run started (initial tcp0) \<noteq> None \<and>
   step (Ret_Start 0) (the (run started (initial tcp0))) \<noteq> None \<and>
   a_listener (tasks (the (run started (initial tcp0))) ! 0) = Some (Listener 1) \<and>
   listener (tcp (the (run started (initial tcp0)))) \<noteq> None \<and>
   map_option log (step (Call_Start ''t5'') (the (run started (initial tcp0)))) =
     Some [Go ''t1'', ListenTCP (Inr (Listener 1)),
           Event ''t1'' ''accept'' ''Waiting For Connections : IPAddress[ %s ]''
             [AHostPort ''0.0.0.0'' 6000],
           Return ''Start'' (Some ErrStarted)] \<and>
   map_option tasks (step (Call_Start ''t5'') (the (run started (initial tcp0)))) =
     Some (tasks (the (run started (initial tcp0)))) \<and>
   a_pc (tasks (the (step (Call_Start ''t1'') (initial tcp0))) ! 0) = AtTop \<and>
   map_option log
     (step (Acc_top 0 (Inl bind_failure)) (the (step (Call_Start ''t1'') (initial tcp0)))) =
     Some [Go ''t1'', ListenTCP (Inl bind_failure), Panic bind_failure] \<and>
   crashed (the (step (Acc_top 0 (Inl bind_failure))
     (the (step (Call_Start ''t1'') (initial tcp0))))) \<and>
   step (Ret_Start 0) (the (step (Acc_top 0 (Inl bind_failure))
     (the (step (Call_Start ''t1'') (initial tcp0))))) = None \<and>
   run restarted (initial tcp0) \<noteq> None \<and>
   start_results (log (the (run restarted (initial tcp0)))) = [None, Some ErrStarted]"
proof -
  have spawn: "\<not> crashed (initial tcp0) \<and> listener (tcp (initial tcp0)) = None \<and>
      map_option tasks (step (Call_Start ''t1'') (initial tcp0)) =
        Some [\<lparr>a_traceID = ''t1'', a_pc = AtTop, a_listener = None, waitStart = 1,
               starting = True\<rparr>]"
    using Start_outcomes [where w = "initial tcp0" and traceID = "''t1''",
            THEN conjunct2, THEN conjunct1]
    by (simp add: initial_def tcp0_def)
  have wait: "run started (initial tcp0) \<noteq> None \<and>
      step (Ret_Start 0) (the (run started (initial tcp0))) \<noteq> None \<and>
      a_listener (tasks (the (run started (initial tcp0))) ! 0) = Some (Listener 1)"
    using Start_outcomes [where ls = started and t = tcp0
            and w = "the (run started (initial tcp0))" and i = 0
            and w' = "the (step (Ret_Start 0) (the (run started (initial tcp0))))",
            THEN conjunct2, THEN conjunct2, THEN conjunct1]
    by (simp add: ops started_def tcp0_def cfg0_def)
  have again: "listener (tcp (the (run started (initial tcp0)))) \<noteq> None \<and>
      map_option log (step (Call_Start ''t5'') (the (run started (initial tcp0)))) =
        Some [Go ''t1'', ListenTCP (Inr (Listener 1)),
              Event ''t1'' ''accept'' ''Waiting For Connections : IPAddress[ %s ]''
                [AHostPort ''0.0.0.0'' 6000],
              Return ''Start'' (Some ErrStarted)] \<and>
      map_option tasks (step (Call_Start ''t5'') (the (run started (initial tcp0)))) =
        Some (tasks (the (run started (initial tcp0))))"
    using Start_outcomes [where w = "the (run started (initial tcp0))" and traceID = "''t5''",
            THEN conjunct1]
    by (simp add: ops started_def tcp0_def cfg0_def)
  have panic: "a_pc (tasks (the (step (Call_Start ''t1'') (initial tcp0))) ! 0) = AtTop \<and>
      map_option log
        (step (Acc_top 0 (Inl bind_failure)) (the (step (Call_Start ''t1'') (initial tcp0)))) =
        Some [Go ''t1'', ListenTCP (Inl bind_failure), Panic bind_failure]"
    using Start_outcomes [where w = "the (step (Call_Start ''t1'') (initial tcp0))"
            and i = 0 and err = bind_failure,
            THEN conjunct2, THEN conjunct2, THEN conjunct2, THEN conjunct1]
    by (simp add: ops tcp0_def cfg0_def)
  have dead: "crashed (the (step (Acc_top 0 (Inl bind_failure))
        (the (step (Call_Start ''t1'') (initial tcp0))))) \<and>
      step (Ret_Start 0) (the (step (Acc_top 0 (Inl bind_failure))
        (the (step (Call_Start ''t1'') (initial tcp0))))) = None"
    using Start_outcomes [where w = "the (step (Acc_top 0 (Inl bind_failure))
              (the (step (Call_Start ''t1'') (initial tcp0))))" and l = "Ret_Start 0",
            THEN conjunct2, THEN conjunct2, THEN conjunct2, THEN conjunct2, THEN conjunct1]
    by (simp add: ops tcp0_def cfg0_def)
  have results: "run restarted (initial tcp0) \<noteq> None \<and>
      start_results (log (the (run restarted (initial tcp0)))) = [None, Some ErrStarted]"
    using Start_outcomes [where ls = restarted and t = tcp0
            and w = "the (run restarted (initial tcp0))",
            THEN conjunct2, THEN conjunct2, THEN conjunct2, THEN conjunct2, THEN conjunct2]
    by (simp add: ops restarted_def start_results_def tcp0_def cfg0_def)
  from spawn wait again panic dead results show ?thesis by blast
qed

text \<open>
  C1 as stated fails where \<open>net.ListenTCP\<close> fails: the log of the run ends with the
  panic, there is no return of \<open>Start\<close> in it, and none can follow.
\<close>

theorem bind_failure_panics:
  "map_option log (run [Call_Start ''t1'', Acc_top 0 (Inl bind_failure)] (initial tcp0)) =
     Some [Go ''t1'', ListenTCP (Inl bind_failure), Panic bind_failure] \<and>
   map_option crashed (run [Call_Start ''t1'', Acc_top 0 (Inl bind_failure)] (initial tcp0)) =
     Some True \<and>
   run [Call_Start ''t1'', Acc_top 0 (Inl bind_failure), Ret_Start 0] (initial tcp0) = None"
  by (simp add: ops tcp0_def cfg0_def)

text \<open>
  C2. For every sequence of accepted connections, whatever the drop flag and the rate
  limiter let through: the clients created have pairwise different remote addresses, each
  is created under an address that was free and is registered under it at the end, every
  client registered before is still registered, and nothing else is in the registry. A
  \<open>join\<close> for an address that is present closes the new socket, creates no client and
  leaves the manager, with the client registered first, as it was.
\<close>

theorem one_client_per_address:
  "(accept_conns t traceID cs = (t', es) \<longrightarrow>
      distinct (map addr_of (created es)) \<and>
      (\<forall>k \<in> set (created es). clients t (addr_of k) = None \<and> clients t' (addr_of k) = Some k) \<and>
      (\<forall>a k. clients t a = Some k \<longrightarrow> clients t' a = Some k) \<and>
      (\<forall>a k. clients t' a = Some k \<longrightarrow> clients t a = Some k \<or> k \<in> set (created es))) \<and>
   (clients t (RemoteAddr c) = Some old \<longrightarrow>
      fst (join t traceID c) = t \<and>
      closed (snd (join t traceID c)) = [c] \<and>
      created (snd (join t traceID c)) = [] \<and>
      clients (fst (join t traceID c)) (RemoteAddr c) = Some old)"
proof -
  have "fst (join t traceID c) = t \<and>
      closed (snd (join t traceID c)) = [c] \<and>
      created (snd (join t traceID c)) = [] \<and>
      clients (fst (join t traceID c)) (RemoteAddr c) = Some old"
    if "clients t (RemoteAddr c) = Some old"
    using that by (simp add: join_def Let_def)
  with accept_conns_registry [of t traceID cs t' es] show ?thesis by blast
qed

text \<open>
  C2 at work: of three connections, the second from the remote address of the first, two
  are registered and the second is closed.
\<close>

theorem one_client_per_address_witness:
  "accept_conns tcp0 ''t1'' [(conn1, 10), (conn3, 20), (conn2, 30)] =
     (fst (accept_conns tcp0 ''t1'' [(conn1, 10), (conn3, 20), (conn2, 30)]),
      snd (accept_conns tcp0 ''t1'' [(conn1, 10), (conn3, 20), (conn2, 30)])) \<and>
   created (snd (accept_conns tcp0 ''t1'' [(conn1, 10), (conn3, 20), (conn2, 30)])) =
     [Client ''t1-10.0.0.5:5555'' conn1, Client ''t1-10.0.0.6:4444'' conn2] \<and>
   closed (snd (accept_conns tcp0 ''t1'' [(conn1, 10), (conn3, 20), (conn2, 30)])) = [conn3] \<and>
   distinct (map addr_of
     (created (snd (accept_conns tcp0 ''t1'' [(conn1, 10), (conn3, 20), (conn2, 30)])))) \<and>
   clients (fst (join tcp0 ''t1'' conn1)) (RemoteAddr conn3) =
     Some (Client ''t1-10.0.0.5:5555'' conn1) \<and>
   fst (join (fst (join tcp0 ''t1'' conn1)) ''t1'' conn3) = fst (join tcp0 ''t1'' conn1) \<and>
   closed (snd (join (fst (join tcp0 ''t1'' conn1)) ''t1'' conn3)) = [conn3]"
  using one_client_per_address [where t = tcp0 and traceID = "''t1''"
          and cs = "[(conn1, 10), (conn3, 20), (conn2, 30)]"
          and t' = "fst (accept_conns tcp0 ''t1'' [(conn1, 10), (conn3, 20), (conn2, 30)])"
          and es = "snd (accept_conns tcp0 ''t1'' [(conn1, 10), (conn3, 20), (conn2, 30)])"]
        one_client_per_address [where t = "fst (join tcp0 ''t1'' conn1)" and traceID = "''t1''"
          and c = conn3 and old = "Client ''t1-10.0.0.5:5555'' conn1"]
  by (simp add: accept_conn_def join_def newClient_def addr_of_def Let_def tcp0_def cfg0_def
        conn1_def conn2_def conn3_def)

text \<open>
  C3 fails on the code. In the run \<open>race\<close>, \<open>Accept\<close> has returned a connection when
  \<open>Stop\<close> is called. \<open>Stop\<close> sets the flag, closes the listener, shuts down the pools and
  copies the registry, which is empty, so that it drops nobody; the accept task then
  registers the connection and starts its read pipeline, finds the listener closed and
  ends; \<open>Stop\<close> returns nil. At that point the client is registered and its read pipeline
  has not exited.
\<close>

theorem Stop_returns_while_client_reads:
  "map_option unfinished (run race (initial tcp0)) = Some [Client ''t1-10.0.0.5:5555'' conn1] \<and>
   map_option log (run race (initial tcp0)) = Some
     [Go ''t1'', ListenTCP (Inr (Listener 1)),
      Event ''t1'' ''accept'' ''Waiting For Connections : IPAddress[ %s ]''
        [AHostPort ''0.0.0.0'' 6000],
      Return ''Start'' None,
      ListenerClose (Some (Listener 1)),
      PoolShutdown (Pool ''srv-Recv'') ''t2'', PoolShutdown (Pool ''srv-Send'') ''t2'',
      Event ''t1-10.0.0.5:5555'' ''join'' ''Remote IPAddress[ %s ], Local IPAddress[ %v ]''
        [AStr ''10.0.0.5:5555'', AStr ''10.0.0.1:6000''],
      NewClient (Client ''t1-10.0.0.5:5555'' conn1),
      Event ''t1'' ''accept'' ''Shutdown : IPAddress[ %s ]'' [AHostPort ''0.0.0.0'' 6000],
      Return ''Stop'' None]"
  by (simp add: ops race_def unfinished_def addr_of_def tcp0_def cfg0_def conn1_def
        closed_listener_def)

text \<open>
  C4. \<open>Do\<close> for an address that is not registered returns the error "IP Address
  disconnected" and has no effect at all: nothing is submitted to the send pool. For a
  registered address it returns nil, and its one effect is the submission to the send pool
  of the response with manager, client and trace identifier set; it does not itself write
  or wait for the write.
\<close>

theorem Do_absent_or_present:
  "(clients t (r_TCPAddr r) = None \<longrightarrow>
      Do t traceID r = (Some (ErrDisconnected (r_TCPAddr r)), [])) \<and>
   (\<forall>c. clients t (r_TCPAddr r) = Some c \<longrightarrow>
      Do t traceID r =
        (None, [PoolDo (send t) traceID
                  (r\<lparr>r_tcp := Some (Name t), r_client := Some c, r_traceID := traceID\<rparr>)]))"
  by (simp add: Do_def)

text \<open>
  C4 at work, before and after the client of the address is registered.
\<close>

theorem Do_absent_or_present_witness:
  "clients tcp0 (r_TCPAddr resp1) = None \<and>
   Do tcp0 ''t3'' resp1 = (Some (ErrDisconnected ''10.0.0.5:5555''), []) \<and>
   clients (fst (join tcp0 ''t1'' conn1)) (r_TCPAddr resp1) = Some (Client ''t1-10.0.0.5:5555'' conn1) \<and>
   Do (fst (join tcp0 ''t1'' conn1)) ''t3'' resp1 =
     (None, [PoolDo (Pool ''srv-Send'') ''t3''
               (resp1\<lparr>r_tcp := Some ''srv'',
                       r_client := Some (Client ''t1-10.0.0.5:5555'' conn1),
                       r_traceID := ''t3''\<rparr>)])"
  using Do_absent_or_present [where t = tcp0 and r = resp1 and traceID = "''t3''"]
        Do_absent_or_present [where t = "fst (join tcp0 ''t1'' conn1)" and r = resp1
          and traceID = "''t3''"]
  by (simp add: tcp0_def conn1_def resp1_def join_def newClient_def Let_def)

text \<open>
  C5. When \<open>Accept\<close> returns an error and the shutting-down flag is set, the task clears
  \<open>t.listener\<close> and leaves the loop, without an event. When the flag is clear the error is
  reported through the event callback. If the error is permanent (it has a method
  \<open>Temporary\<close> that answers false), the listener is closed and cleared and \<open>waitStart\<close> is
  raised by one, so that the next head of the loop binds a new listener and takes
  \<open>waitStart\<close> down again. Otherwise manager and \<open>waitStart\<close> are unchanged and the next
  head of the loop binds nothing.
\<close>

theorem accept_error_cases:
  "(shuttingDown t \<noteq> 0 \<longrightarrow>
      accept_error t traceID ws err = Break (t\<lparr>listener := None\<rparr>, ws, [])) \<and>
   (shuttingDown t = 0 \<and> not_temporary err \<longrightarrow>
      accept_error t traceID ws err =
        Continue (t\<lparr>listener := None\<rparr>, ws + 1,
          [Event traceID ''accept'' ''ERROR : %v'' [AErr err], ListenerClose (listener t)]) \<and>
      (0 \<le> ws \<longrightarrow>
        accept_top (t\<lparr>listener := None\<rparr>) traceID lsn (ws + 1) (Inr l) =
          Continue (t\<lparr>listener := Some l\<rparr>, Some l, ws,
            [ListenTCP (Inr l),
             Event traceID ''accept'' ''Waiting For Connections : IPAddress[ %s ]''
               [AHostPort (ipAddress t) (port t)]]))) \<and>
   (shuttingDown t = 0 \<and> \<not> not_temporary err \<longrightarrow>
      accept_error t traceID ws err =
        Continue (t, ws, [Event traceID ''accept'' ''ERROR : %v'' [AErr err]]) \<and>
      (listener t \<noteq> None \<longrightarrow>
        accept_top t traceID lsn ws bind = Continue (t, lsn, ws, [])))"
  by (auto simp: accept_error_def accept_top_def not_temporary_def wg_Done_def Let_def
           split: error.splits option.splits bool.splits)

text \<open>
  C5 at work: a closed listener during shutdown, an exhausted descriptor table, a
  timeout.
\<close>

theorem accept_error_cases_witness:
  "shuttingDown (tcp0\<lparr>shuttingDown := 1\<rparr>) \<noteq> 0 \<and>
   accept_error (tcp0\<lparr>shuttingDown := 1, listener := Some (Listener 1)\<rparr>) ''t1'' 0 closed_listener =
     Break (tcp0\<lparr>shuttingDown := 1, listener := None\<rparr>, 0, []) \<and>
   shuttingDown tcp0 = 0 \<and> not_temporary too_many_files \<and> \<not> not_temporary timeout_err \<and>
   accept_error (tcp0\<lparr>listener := Some (Listener 1)\<rparr>) ''t1'' 0 too_many_files =
     Continue (tcp0\<lparr>listener := None\<rparr>, 1,
       [Event ''t1'' ''accept'' ''ERROR : %v'' [AErr too_many_files],
        ListenerClose (Some (Listener 1))]) \<and>
   accept_top (tcp0\<lparr>listener := None\<rparr>) ''t1'' (Some (Listener 1)) 1 (Inr (Listener 2)) =
     Continue (tcp0\<lparr>listener := Some (Listener 2)\<rparr>, Some (Listener 2), 0,
       [ListenTCP (Inr (Listener 2)),
        Event ''t1'' ''accept'' ''Waiting For Connections : IPAddress[ %s ]''
          [AHostPort ''0.0.0.0'' 6000]]) \<and>
   accept_error (tcp0\<lparr>listener := Some (Listener 1)\<rparr>) ''t1'' 0 timeout_err =
     Continue (tcp0\<lparr>listener := Some (Listener 1)\<rparr>, 0,
       [Event ''t1'' ''accept'' ''ERROR : %v'' [AErr timeout_err]]) \<and>
   accept_top (tcp0\<lparr>listener := Some (Listener 1)\<rparr>) ''t1'' (Some (Listener 1)) 0
       (Inr (Listener 2)) =
     Continue (tcp0\<lparr>listener := Some (Listener 1)\<rparr>, Some (Listener 1), 0, [])"
  using accept_error_cases [where t = "tcp0\<lparr>shuttingDown := 1, listener := Some (Listener 1)\<rparr>"
          and traceID = "''t1''" and ws = 0 and err = closed_listener]
        accept_error_cases [where t = "tcp0\<lparr>listener := Some (Listener 1)\<rparr>"
          and traceID = "''t1''" and ws = 0 and err = too_many_files
          and lsn = "Some (Listener 1)" and l = "Listener 2"]
        accept_error_cases [where t = "tcp0\<lparr>listener := Some (Listener 1)\<rparr>"
          and traceID = "''t1''" and ws = 0 and err = timeout_err
          and lsn = "Some (Listener 1)" and bind = "Inr (Listener 2)"]
  by (simp add: tcp0_def not_temporary_def too_many_files_def timeout_err_def)

text \<open>
  C6. With a rate limiter that answers \<open>D\<close> and the drop flag clear, a connection
  accepted at \<open>now\<close> is closed, with the manager and so the time of the last accepted
  connection unchanged and no client created, exactly when \<open>lastAccepted + D\<close> is after
  \<open>now\<close>; otherwise the time is set to \<open>now\<close> and the connection goes to \<open>join\<close>. So of two
  connections from different, unregistered remote addresses, the first of which passes the
  limiter: arriving less than \<open>D\<close> apart, the first is registered and the second closed;
  arriving \<open>D\<close> or more apart, both are registered.
\<close>

theorem rate_limit:
  assumes "RateLimit (Config t) = Some limit" and "limit () = D" and "dropConns t \<noteq> 1"
  shows
   "(now < lastAcceptedConnection t + D \<longrightarrow>
       fst (accept_conn t traceID c now) = t \<and>
       closed (snd (accept_conn t traceID c now)) = [c] \<and>
       created (snd (accept_conn t traceID c now)) = []) \<and>
    (\<not> now < lastAcceptedConnection t + D \<longrightarrow>
       accept_conn t traceID c now = join (t\<lparr>lastAcceptedConnection := now\<rparr>) traceID c) \<and>
    (lastAcceptedConnection t + D \<le> ta \<and>
     clients t (RemoteAddr ca) = None \<and> clients t (RemoteAddr cb) = None \<and>
     RemoteAddr ca \<noteq> RemoteAddr cb \<longrightarrow>
       (tb - ta < D \<longrightarrow>
          map cconn (created (snd (accept_conns t traceID [(ca, ta), (cb, tb)]))) = [ca] \<and>
          closed (snd (accept_conns t traceID [(ca, ta), (cb, tb)])) = [cb] \<and>
          registered (fst (accept_conns t traceID [(ca, ta), (cb, tb)])) ca \<and>
          \<not> registered (fst (accept_conns t traceID [(ca, ta), (cb, tb)])) cb) \<and>
       (D \<le> tb - ta \<longrightarrow>
          map cconn (created (snd (accept_conns t traceID [(ca, ta), (cb, tb)]))) = [ca, cb] \<and>
          closed (snd (accept_conns t traceID [(ca, ta), (cb, tb)])) = [] \<and>
          registered (fst (accept_conns t traceID [(ca, ta), (cb, tb)])) ca \<and>
          registered (fst (accept_conns t traceID [(ca, ta), (cb, tb)])) cb))"
  using assms
  by (auto simp: accept_conn_def join_def registered_def newClient_def Let_def)

text \<open>
  C6 at work with a limiter of one second: half a second apart, and one second apart.
\<close>

theorem rate_limit_witness:
  "RateLimit (Config tcp_limited) = Some one_second \<and> one_second () = 1000000000 \<and>
   dropConns tcp_limited \<noteq> 1 \<and>
   lastAcceptedConnection tcp_limited + 1000000000 \<le> 5000000000 \<and>
   5500000000 - 5000000000 < (1000000000 :: int) \<and>
   (1000000000 :: int) \<le> 6000000000 - 5000000000 \<and>
   map cconn (created (snd (accept_conns tcp_limited ''t1''
      [(conn1, 5000000000), (conn2, 5500000000)]))) = [conn1] \<and>
   closed (snd (accept_conns tcp_limited ''t1''
      [(conn1, 5000000000), (conn2, 5500000000)])) = [conn2] \<and>
   \<not> registered (fst (accept_conns tcp_limited ''t1''
      [(conn1, 5000000000), (conn2, 5500000000)])) conn2 \<and>
   map cconn (created (snd (accept_conns tcp_limited ''t1''
      [(conn1, 5000000000), (conn2, 6000000000)]))) = [conn1, conn2] \<and>
   registered (fst (accept_conns tcp_limited ''t1''
      [(conn1, 5000000000), (conn2, 6000000000)])) conn2"
  using rate_limit [where t = tcp_limited and limit = one_second and D = 1000000000
          and ta = 5000000000 and tb = 5500000000 and ca = conn1 and cb = conn2
          and traceID = "''t1''" and now = 5000000000 and c = conn1]
        rate_limit [where t = tcp_limited and limit = one_second and D = 1000000000
          and ta = 5000000000 and tb = 6000000000 and ca = conn1 and cb = conn2
          and traceID = "''t1''" and now = 100 and c = conn1]
  by (simp add: accept_conn_def join_def newClient_def registered_def Let_def
        tcp_limited_def tcp0_def cfg0_def one_second_def conn1_def conn2_def)

text \<open>
  C7. \<open>remove\<close> for a remote address that is not registered reports "IP Address already
  removed" through the event callback, leaves the manager unchanged and closes no socket.
  For a registered address it deletes the entry, changes nothing else and closes the
  socket.
\<close>

theorem remove_absent_or_present:
  "(clients t (RemoteAddr c) = None \<longrightarrow>
      fst (remove t traceID c) = t \<and>
      closed (snd (remove t traceID c)) = [] \<and>
      Event traceID ''remove'' ''ERROR : %v'' [AErr (ErrRemoved (RemoteAddr c))]
        \<in> set (snd (remove t traceID c))) \<and>
   (clients t (RemoteAddr c) \<noteq> None \<longrightarrow>
      fst (remove t traceID c) = t\<lparr>clients := (clients t)(RemoteAddr c := None)\<rparr> \<and>
      closed (snd (remove t traceID c)) = [c])"
  by (cases "clients t (RemoteAddr c)") (simp_all add: remove_def Let_def)

text \<open>
  C7 at work, before and after the connection is registered.
\<close>

theorem remove_absent_or_present_witness:
  "clients tcp0 (RemoteAddr conn1) = None \<and>
   fst (remove tcp0 ''t1'' conn1) = tcp0 \<and>
   closed (snd (remove tcp0 ''t1'' conn1)) = [] \<and>
   clients (fst (join tcp0 ''t1'' conn1)) (RemoteAddr conn1) \<noteq> None \<and>
   clients (fst (remove (fst (join tcp0 ''t1'' conn1)) ''t1'' conn1)) (RemoteAddr conn1) = None \<and>
   closed (snd (remove (fst (join tcp0 ''t1'' conn1)) ''t1'' conn1)) = [conn1]"
  using remove_absent_or_present [of tcp0 conn1 "''t1''"]
        remove_absent_or_present [of "fst (join tcp0 ''t1'' conn1)" conn1 "''t1''"]
  by (simp add: tcp0_def conn1_def join_def Let_def)

text \<open>
  C8. \<open>Stop\<close> on a manager without listener returns the error "This TCP has already been
  stopped", leaves the manager unchanged (flag, listener, registry) and has no effect
  (nothing closed, no pool shut down). That is the case of a manager fresh from \<open>New\<close>, as
  often as \<open>Stop\<close> is called; and in every run from a new manager, once a call of \<open>Stop\<close>
  has returned nil the listener is cleared and a call of \<open>Stop\<close> that follows returns the
  error, changing nothing but the log of returns.
\<close>

theorem Stop_without_listener:
  "(listener t = None \<longrightarrow> Stop_enter t traceID ord = (Inl ErrStopped, t, [])) \<and>
   (New validate resolve pool_New nid name cfg = Inr t \<longrightarrow>
      Stop_enter t traceID ord = (Inl ErrStopped, t, [])) \<and>
   (\<not> crashed w \<and> listener (tcp w) = None \<longrightarrow>
      step (Call_Stop traceID ord) w =
        Some (w\<lparr>log := log w @ [Return ''Stop'' (Some ErrStopped)]\<rparr>)) \<and>
   (listener t = None \<and> wg t = 0 \<and> run ls (initial t) = Some w \<and>
    step (Ret_Stop j) w = Some w' \<longrightarrow>
      log w' = log w @ [Return ''Stop'' None] \<and> listener (tcp w') = None \<and>
      step (Call_Stop traceID ord) w' =
        Some (w'\<lparr>log := log w' @ [Return ''Stop'' (Some ErrStopped)]\<rparr>))"
proof -
  have a: "Stop_enter t traceID ord = (Inl ErrStopped, t, [])" if "listener t = None" for t
    using that by (simp add: Stop_enter_def)
  have b: "step (Call_Stop traceID ord) w =
        Some (w\<lparr>log := log w @ [Return ''Stop'' (Some ErrStopped)]\<rparr>)"
    if "\<not> crashed w" "listener (tcp w) = None" for w
    using that by (simp add: step_def call_Stop_def a)
  have c: "log w' = log w @ [Return ''Stop'' None] \<and> listener (tcp w') = None \<and>
      step (Call_Stop traceID ord) w' =
        Some (w'\<lparr>log := log w' @ [Return ''Stop'' (Some ErrStopped)]\<rparr>)"
    if f: "listener t = None" "wg t = 0" and r: "run ls (initial t) = Some w"
      and s: "step (Ret_Stop j) w = Some w'"
  proof -
    have acc: "accounted w"
      using accounted_run [OF accounted_initial [OF f] r] .
    from s have z: "wg (tcp w) = 0" "\<not> crashed w" "tcp w' = tcp w" "crashed w' = crashed w"
      and l: "log w' = log w @ [Return ''Stop'' None]"
      by (auto simp: step_def ret_Stop_def split: if_splits)
    from acc z(1) have "listener (tcp w) = None"
      by (auto simp: accounted_def)
    with z l b [of w'] show ?thesis by simp
  qed
  from a b c New_fresh [of validate resolve pool_New nid name cfg t] show ?thesis
    by blast
qed

text \<open>
  C8 at work: \<open>Stop\<close> on the new manager, and \<open>Stop\<close> after a start and a stop.
\<close>

theorem Stop_without_listener_witness:
  "listener tcp0 = None \<and> wg tcp0 = 0 \<and>
   New accept_all resolve0 pool_New0 ''t0'' ''srv'' cfg0 = Inr tcp0 \<and>
   Stop_enter tcp0 ''t2'' [] = (Inl ErrStopped, tcp0, []) \<and>
   map_option log (step (Call_Stop ''t2'' []) (initial tcp0)) =
     Some [Return ''Stop'' (Some ErrStopped)] \<and>
   map_option tcp (step (Call_Stop ''t2'' []) (initial tcp0)) = Some tcp0 \<and>
   run stopped (initial tcp0) \<noteq> None \<and>
   step (Ret_Stop 0) (the (run stopped (initial tcp0))) \<noteq> None \<and>
   map_option tcp (step (Call_Stop ''t6'' [])
       (the (step (Ret_Stop 0) (the (run stopped (initial tcp0)))))) =
     Some (tcp (the (run stopped (initial tcp0)))) \<and>
   map_option log (step (Call_Stop ''t6'' [])
       (the (step (Ret_Stop 0) (the (run stopped (initial tcp0)))))) =
     Some (log (the (run stopped (initial tcp0))) @
           [Return ''Stop'' None, Return ''Stop'' (Some ErrStopped)])"
  using Stop_without_listener [where t = tcp0 and traceID = "''t2''" and ord = "[]"
          and validate = accept_all and resolve = resolve0 and pool_New = pool_New0
          and nid = "''t0''" and name = "''srv''" and cfg = cfg0
          and w = "initial tcp0" and ls = "[]" and j = 7 and w' = "initial tcp0"]
        Stop_without_listener [where t = tcp0 and traceID = "''t6''" and ord = "[]"
          and validate = accept_all and resolve = resolve0 and pool_New = pool_New0
          and nid = "''t0''" and name = "''srv''" and cfg = cfg0
          and w = "the (run stopped (initial tcp0))" and ls = stopped and j = 0
          and w' = "the (step (Ret_Stop 0) (the (run stopped (initial tcp0))))"]
        New_example
  by (simp add: ops stopped_def closed_listener_def tcp0_def cfg0_def List.map_filter_def)

text \<open>
  C9. \<open>DropConnections\<close> sets the flag to one or to zero and changes nothing else; the
  registry is as it was. With the flag at one, every accepted connection of a sequence is
  closed, no client is created and the manager is unchanged; this holds right after
  \<open>DropConnections(true)\<close>. After \<open>DropConnections(false)\<close> an accepted connection goes
  to \<open>join\<close> again (with no rate limiter configured), and is registered when its address
  is free.
\<close>

theorem drop_flag:
  "DropConnections t traceID True = t\<lparr>dropConns := 1\<rparr> \<and>
   DropConnections t traceID False = t\<lparr>dropConns := 0\<rparr> \<and>
   clients (DropConnections t traceID d) = clients t \<and>
   (dropConns t = 1 \<longrightarrow>
      fst (accept_conns t traceID' cs) = t \<and>
      closed (snd (accept_conns t traceID' cs)) = map fst cs \<and>
      created (snd (accept_conns t traceID' cs)) = []) \<and>
   fst (accept_conns (DropConnections t traceID True) traceID' cs) =
     DropConnections t traceID True \<and>
   closed (snd (accept_conns (DropConnections t traceID True) traceID' cs)) = map fst cs \<and>
   (RateLimit (Config t) = None \<longrightarrow>
      accept_conn (DropConnections t traceID False) traceID' c now =
        join (DropConnections t traceID False) traceID' c) \<and>
   (RateLimit (Config t) = None \<and> clients t (RemoteAddr c) = None \<longrightarrow>
      registered (fst (accept_conn (DropConnections t traceID False) traceID' c now)) c \<and>
      closed (snd (accept_conn (DropConnections t traceID False) traceID' c now)) = [])"
proof -
  have on: "dropConns (DropConnections t traceID True) = 1"
    by (simp add: DropConnections_def)
  have off: "dropConns (DropConnections t traceID False) \<noteq> 1"
    by (simp add: DropConnections_def)
  have same: "clients (DropConnections t traceID d) = clients t"
    "Config (DropConnections t traceID d) = Config t" for d
    by (simp_all add: DropConnections_def)
  have resume: "accept_conn (DropConnections t traceID False) traceID' c now =
        join (DropConnections t traceID False) traceID' c" if "RateLimit (Config t) = None"
    using that off by (simp add: accept_conn_def same)
  have reg: "registered (fst (join (DropConnections t traceID False) traceID' c)) c \<and>
      closed (snd (join (DropConnections t traceID False) traceID' c)) = []"
    if "clients t (RemoteAddr c) = None"
    using that by (simp add: join_def Let_def same registered_def newClient_def)
  show ?thesis
    using accept_conns_dropping [OF on, of traceID' cs] accept_conns_dropping [of t traceID' cs]
      resume reg same
    by (simp add: DropConnections_def)
qed

text \<open>
  C9 at work: two connections dropped while the flag is set, one registered after it is
  cleared.
\<close>

theorem drop_flag_witness:
  "dropConns (DropConnections tcp0 ''t4'' True) = 1 \<and>
   fst (accept_conns (DropConnections tcp0 ''t4'' True) ''t1'' [(conn1, 10), (conn2, 20)]) =
     DropConnections tcp0 ''t4'' True \<and>
   closed (snd (accept_conns (DropConnections tcp0 ''t4'' True) ''t1''
     [(conn1, 10), (conn2, 20)])) = [conn1, conn2] \<and>
   RateLimit (Config tcp0) = None \<and> clients tcp0 (RemoteAddr conn1) = None \<and>
   registered (fst (accept_conn
     (DropConnections (DropConnections tcp0 ''t4'' True) ''t4'' False) ''t1'' conn1 30)) conn1"
  using drop_flag [where t = "DropConnections tcp0 ''t4'' True" and traceID = "''t4''"
          and traceID' = "''t1''" and cs = "[(conn1, 10), (conn2, 20)]" and c = conn1
          and now = 30 and d = True]
  by (simp add: DropConnections_def accept_conn_def join_def newClient_def registered_def
        Let_def tcp0_def cfg0_def conn1_def conn2_def)

text \<open>
  C10. For every configuration from which \<open>New\<close> builds a manager, and every state the
  manager reaches in which it holds a listener: \<open>Stop\<close> shuts down the receive pool and
  the send pool of the manager when the configuration has no receive pool, and neither
  when it has one. With no receive pool and a send pool supplied, the send pool of the
  manager is the supplied one, and \<open>Stop\<close> shuts it down.
\<close>

theorem pools_shut_down_iff_no_RecvPool:
  assumes "New validate resolve pool_New nid name cfg = Inr t"
    and "run ls (initial t) = Some w" and "listener (tcp w) = Some l"
  shows "snd (snd (Stop_enter (tcp w) traceID ord)) =
           ListenerClose (Some l) #
           (if RecvPool cfg = None
            then [PoolShutdown (recv t) traceID, PoolShutdown (send t) traceID] else []) \<and>
         (\<forall>p. RecvPool cfg = None \<and> SendPool cfg = Some p \<longrightarrow>
            send t = p \<and> PoolShutdown p traceID \<in> set (snd (snd (Stop_enter (tcp w) traceID ord))))"
proof -
  from pools_run [OF assms(2)] have p: "recv (tcp w) = recv t" "send (tcp w) = send t"
      "userPools (tcp w) = userPools t"
    by (simp_all add: pools_of_def)
  note n = New_fresh [OF assms(1)]
  from p n assms(3) show ?thesis
    by (auto simp: Stop_enter_def)
qed

text \<open>
  C10 at work on a configuration that supplies a send pool only.
\<close>

theorem pools_shut_down_iff_no_RecvPool_witness:
  "New accept_all resolve0 pool_New0 ''t0'' ''srv'' cfg_mixed = Inr tcp_mixed \<and>
   run started (initial tcp_mixed) \<noteq> None \<and>
   listener (tcp (the (run started (initial tcp_mixed)))) = Some (Listener 1) \<and>
   RecvPool cfg_mixed = None \<and> SendPool cfg_mixed = Some (Pool ''mine'') \<and>
   snd (snd (Stop_enter (tcp (the (run started (initial tcp_mixed)))) ''t2'' [])) =
     [ListenerClose (Some (Listener 1)), PoolShutdown (Pool ''srv-Recv'') ''t2'',
      PoolShutdown (Pool ''mine'') ''t2'']"
  using pools_shut_down_iff_no_RecvPool [where validate = accept_all and resolve = resolve0
          and pool_New = pool_New0 and nid = "''t0''" and name = "''srv''"
          and cfg = cfg_mixed and t = tcp_mixed and ls = started
          and w = "the (run started (initial tcp_mixed))" and l = "Listener 1"
          and traceID = "''t2''" and ord = "[]"]
        New_example
  by (simp add: ops started_def tcp_mixed_def cfg_mixed_def tcp0_def cfg0_def)

end
